theory Spec2Isabelle
  imports Main "HOL-Library.Word" "HOL-Library.Char_ord" "HOL-Library.List_Lexorder"
begin

unbundle bit_operations_syntax

chapter \<open>The NLB controller of aws-alb-ingress-controller\<close>

text \<open>
  A shallow embedding of the reconciliation core: the name generator
  (\<^verbatim>\<open>internal/nlb/generator/main.go\<close>), the load balancer controller (package \<^verbatim>\<open>lb\<close>)
  and the target group controller (package \<^verbatim>\<open>tg\<close>).

  Go strings are byte sequences, so a string is a \<^typ>\<open>string\<close> whose characters are its bytes.
  A pointer field \<^verbatim>\<open>*T\<close> of a struct is a \<^typ>\<open>'a option\<close>, \<^term>\<open>None\<close> being \<^verbatim>\<open>nil\<close>.
  A function returning \<^verbatim>\<open>(T, error)\<close> returns a sum with the error on the left; a run-time
  panic is an error of its own kind which no \<^verbatim>\<open>if err != nil\<close> of the callers rewrites.
\<close>

section \<open>Go values, errors and the standard library\<close>

datatype error =
    Error string  \<comment> \<open>an \<^verbatim>\<open>error\<close> value, by its message\<close>
  | Panic string  \<comment> \<open>a run-time panic: nil dereference, index out of range\<close>

text \<open>\<^verbatim>\<open>fmt.Errorf(prefix + "%v", err)\<close>: the message of \<open>err\<close> after the prefix. A panic is not a
  value the caller sees, it unwinds through the wrapping.\<close>

fun Errorf :: "string \<Rightarrow> error \<Rightarrow> error" where
  "Errorf prefix (Error msg) = Error (prefix @ msg)"
| "Errorf prefix (Panic p) = Panic p"

text \<open>\<^verbatim>\<open>errors.Wrap(err, message)\<close> of \<^verbatim>\<open>github.com/pkg/errors\<close>: \<open>message: err\<close>.\<close>

fun Wrap :: "error \<Rightarrow> string \<Rightarrow> error" where
  "Wrap (Error msg) message = Error (message @ '': '' @ msg)"
| "Wrap (Panic p) message = Panic p"

definition nilDereference :: error where
  "nilDereference = Panic ''invalid memory address or nil pointer dereference''"

definition indexOutOfRange :: error where
  "indexOutOfRange = Panic ''index out of range''"

text \<open>\<^verbatim>\<open>aws.StringValue\<close>: the string a pointer refers to, the empty string for \<^verbatim>\<open>nil\<close>.\<close>

definition StringValue :: "string option \<Rightarrow> string" where
  "StringValue p = (case p of None \<Rightarrow> [] | Some s \<Rightarrow> s)"

text \<open>\<^verbatim>\<open>strings.HasPrefix\<close>.\<close>

definition HasPrefix :: "string \<Rightarrow> string \<Rightarrow> bool" where
  "HasPrefix s p = (take (length p) s = p)"

text \<open>\<^verbatim>\<open>strings.Join\<close>.\<close>

fun Join :: "string list \<Rightarrow> string \<Rightarrow> string" where
  "Join [] sep = []"
| "Join [x] sep = x"
| "Join (x # y # ys) sep = x @ sep @ Join (y # ys) sep"

text \<open>\<^verbatim>\<open>strings.Split(s, sep)\<close> for a separator of one byte: the pieces between the separators,
  always at least one piece.\<close>

fun Split :: "string \<Rightarrow> char \<Rightarrow> string list" where
  "Split [] sep = [[]]"
| "Split (c # cs) sep =
     (if c = sep then [] # Split cs sep
      else (case Split cs sep of p # ps \<Rightarrow> (c # p) # ps | [] \<Rightarrow> [[c]]))"

text \<open>\<^verbatim>\<open>strconv.Itoa\<close>: the decimal digits, with a minus sign for a negative number.\<close>

definition digit :: "nat \<Rightarrow> char" where
  "digit n = ''0123456789'' ! n"

function natToDecimal :: "nat \<Rightarrow> string" where
  "natToDecimal n = (if n < 10 then [digit n] else natToDecimal (n div 10) @ [digit (n mod 10)])"
  by pat_completeness auto
termination
  by (relation "measure id") auto

declare natToDecimal.simps [simp del]

definition Itoa :: "int \<Rightarrow> string" where
  "Itoa i = (if i < 0 then CHR ''-'' # natToDecimal (nat (- i)) else natToDecimal (nat i))"

subsection \<open>\<^verbatim>\<open>crypto/md5\<close> and \<^verbatim>\<open>encoding/hex\<close>\<close>

text \<open>MD5 as in RFC 1321, over 32-bit words: the message is padded to a multiple of 64 bytes
  with its bit length in the last eight, each block runs 64 steps over four words of state,
  and the digest is the state in little-endian bytes. \<open>hex_EncodeToString\<close> writes two
  lower-case digits for each byte.\<close>

definition md5_K :: "32 word list" where
  "md5_K =
     [0xd76aa478, 0xe8c7b756, 0x242070db, 0xc1bdceee,
      0xf57c0faf, 0x4787c62a, 0xa8304613, 0xfd469501,
      0x698098d8, 0x8b44f7af, 0xffff5bb1, 0x895cd7be,
      0x6b901122, 0xfd987193, 0xa679438e, 0x49b40821,
      0xf61e2562, 0xc040b340, 0x265e5a51, 0xe9b6c7aa,
      0xd62f105d, 0x02441453, 0xd8a1e681, 0xe7d3fbc8,
      0x21e1cde6, 0xc33707d6, 0xf4d50d87, 0x455a14ed,
      0xa9e3e905, 0xfcefa3f8, 0x676f02d9, 0x8d2a4c8a,
      0xfffa3942, 0x8771f681, 0x6d9d6122, 0xfde5380c,
      0xa4beea44, 0x4bdecfa9, 0xf6bb4b60, 0xbebfbc70,
      0x289b7ec6, 0xeaa127fa, 0xd4ef3085, 0x04881d05,
      0xd9d4d039, 0xe6db99e5, 0x1fa27cf8, 0xc4ac5665,
      0xf4292244, 0x432aff97, 0xab9423a7, 0xfc93a039,
      0x655b59c3, 0x8f0ccc92, 0xffeff47d, 0x85845dd1,
      0x6fa87e4f, 0xfe2ce6e0, 0xa3014314, 0x4e0811a1,
      0xf7537e82, 0xbd3af235, 0x2ad7d2bb, 0xeb86d391]"

definition md5_S :: "nat list" where
  "md5_S = [7, 12, 17, 22, 7, 12, 17, 22, 7, 12, 17, 22, 7, 12, 17, 22,
            5, 9, 14, 20, 5, 9, 14, 20, 5, 9, 14, 20, 5, 9, 14, 20,
            4, 11, 16, 23, 4, 11, 16, 23, 4, 11, 16, 23, 4, 11, 16, 23,
            6, 10, 15, 21, 6, 10, 15, 21, 6, 10, 15, 21, 6, 10, 15, 21]"

definition rotl32 :: "32 word \<Rightarrow> nat \<Rightarrow> 32 word" where
  "rotl32 w n = (push_bit n w) OR (drop_bit (32 - n) w)"

type_synonym md5_state = "32 word \<times> 32 word \<times> 32 word \<times> 32 word"

definition md5_step :: "32 word list \<Rightarrow> md5_state \<Rightarrow> nat \<Rightarrow> md5_state" where
  "md5_step m st i =
     (case st of (a, b, c, d) \<Rightarrow>
       let f = (if i < 16 then (b AND c) OR (NOT b AND d)
                else if i < 32 then (d AND b) OR (NOT d AND c)
                else if i < 48 then b XOR c XOR d
                else c XOR (b OR NOT d));
           g = (if i < 16 then i
                else if i < 32 then (5 * i + 1) mod 16
                else if i < 48 then (3 * i + 5) mod 16
                else (7 * i) mod 16);
           t = f + a + md5_K ! i + m ! g
       in (d, b + rotl32 t (md5_S ! i), b, c))"

fun le_word :: "char list \<Rightarrow> 32 word" where
  "le_word (b0 # b1 # b2 # b3 # _) =
     word_of_int (of_char b0) + push_bit 8 (word_of_int (of_char b1))
       + push_bit 16 (word_of_int (of_char b2)) + push_bit 24 (word_of_int (of_char b3))"
| "le_word _ = 0"

fun md5_words :: "nat \<Rightarrow> char list \<Rightarrow> 32 word list" where
  "md5_words 0 bs = []"
| "md5_words (Suc n) bs = le_word bs # md5_words n (drop 4 bs)"

definition md5_block :: "md5_state \<Rightarrow> char list \<Rightarrow> md5_state" where
  "md5_block st blk =
     (case st of (a0, b0, c0, d0) \<Rightarrow>
        (case foldl (md5_step (md5_words 16 blk)) st [0..<64] of
           (a, b, c, d) \<Rightarrow> (a0 + a, b0 + b, c0 + c, d0 + d)))"

fun le_bytes :: "nat \<Rightarrow> int \<Rightarrow> char list" where
  "le_bytes 0 v = []"
| "le_bytes (Suc n) v = char_of (v mod 256) # le_bytes n (v div 256)"

definition md5_pad :: "char list \<Rightarrow> char list" where
  "md5_pad msg =
     msg @ [char_of (128::int)] @ replicate ((119 - length msg mod 64) mod 64) (char_of (0::int))
         @ le_bytes 8 (uint (8 * (word_of_nat (length msg) :: 64 word)))"

fun md5_blocks :: "nat \<Rightarrow> md5_state \<Rightarrow> char list \<Rightarrow> md5_state" where
  "md5_blocks 0 st bs = st"
| "md5_blocks (Suc n) st bs = md5_blocks n (md5_block st (take 64 bs)) (drop 64 bs)"

definition md5_Sum :: "char list \<Rightarrow> char list" where
  "md5_Sum msg =
     (let p = md5_pad msg in
      case md5_blocks (length p div 64) (0x67452301, 0xefcdab89, 0x98badcfe, 0x10325476) p of
        (a, b, c, d) \<Rightarrow> le_bytes 4 (uint a) @ le_bytes 4 (uint b) @ le_bytes 4 (uint c) @ le_bytes 4 (uint d))"

definition hextable :: string where
  "hextable = ''0123456789abcdef''"

definition hex_EncodeToString :: "char list \<Rightarrow> string" where
  "hex_EncodeToString bs = concat (map (\<lambda>b. [hextable ! (of_char b div 16), hextable ! (of_char b mod 16)]) bs)"

section \<open>The name generator\<close>

subsection \<open>\<^verbatim>\<open>regexp\<close>: replacing the matches of \<^verbatim>\<open>[[:^alnum:]]\<close>\<close>

text \<open>The class \<^verbatim>\<open>[[:^alnum:]]\<close> matches one character that is not an ASCII letter or digit.
  Go's \<^verbatim>\<open>regexp\<close> reads its input as UTF-8: a well-formed sequence of two to four bytes is one
  character, and a byte that starts no well-formed sequence is one character by itself.
  \<open>runeLen\<close> is the number of bytes of the first character, as \<^verbatim>\<open>utf8.DecodeRuneInString\<close>
  gives it.\<close>

definition isAlnum :: "char \<Rightarrow> bool" where
  "isAlnum c =
     (let n = (of_char c :: nat)
      in (48 \<le> n \<and> n \<le> 57) \<or> (65 \<le> n \<and> n \<le> 90) \<or> (97 \<le> n \<and> n \<le> 122))"

definition byteIn :: "nat \<Rightarrow> nat \<Rightarrow> char \<Rightarrow> bool" where
  "byteIn lo hi c = (lo \<le> (of_char c :: nat) \<and> (of_char c :: nat) \<le> hi)"

fun runeLen :: "string \<Rightarrow> nat" where
  "runeLen [] = 0"
| "runeLen (c # cs) =
     (let b = (of_char c :: nat)
      in if b < 194 then 1
         else if b < 224 then
           (case cs of c1 # _ \<Rightarrow> if byteIn 128 191 c1 then 2 else 1 | _ \<Rightarrow> 1)
         else if b < 240 then
           (case cs of
              c1 # c2 # _ \<Rightarrow>
                if byteIn (if b = 224 then 160 else 128) (if b = 237 then 159 else 191) c1
                   \<and> byteIn 128 191 c2
                then 3 else 1
            | _ \<Rightarrow> 1)
         else if b < 245 then
           (case cs of
              c1 # c2 # c3 # _ \<Rightarrow>
                if byteIn (if b = 240 then 144 else 128) (if b = 244 then 143 else 191) c1
                   \<and> byteIn 128 191 c2 \<and> byteIn 128 191 c3
                then 4 else 1
            | _ \<Rightarrow> 1)
         else 1)"

text \<open>\<open>replaceFrom skip repl s\<close> copies the letters and digits of \<open>s\<close> and writes \<open>repl\<close> for every
  other character; \<open>skip\<close> counts the bytes still to pass of a character already replaced.\<close>

fun replaceFrom :: "nat \<Rightarrow> string \<Rightarrow> string \<Rightarrow> string" where
  "replaceFrom skip repl [] = []"
| "replaceFrom skip repl (c # cs) =
     (if 0 < skip then replaceFrom (skip - 1) repl cs
      else if isAlnum c then c # replaceFrom 0 repl cs
      else repl @ replaceFrom (runeLen (c # cs) - 1) repl cs)"

definition ReplaceAllString :: "string \<Rightarrow> string \<Rightarrow> string" where
  "ReplaceAllString src repl = replaceFrom 0 repl src"

subsection \<open>\<^verbatim>\<open>NameLB\<close>\<close>

record NameGenerator =
  NLBNamePrefix :: string

definition NameLB :: "NameGenerator \<Rightarrow> string \<Rightarrow> string \<Rightarrow> string" where
  "NameLB gen namespace serviceName =
     (let hash = take 4 (hex_EncodeToString (md5_Sum (namespace @ serviceName)));
          name = ReplaceAllString (NLBNamePrefix gen) ''-'' @ ''-''
                   @ ReplaceAllString namespace [] @ ''-''
                   @ ReplaceAllString serviceName [];
          name = (if length name > 26 then take 26 name else name)
      in name @ ''-'' @ hash)"

text \<open>The name as the specification words it: no separator between the namespace and the
  service name.\<close>

definition spec_NameLB :: "string \<Rightarrow> string \<Rightarrow> string \<Rightarrow> string" where
  "spec_NameLB prefix namespace serviceName =
     take 26 (ReplaceAllString prefix ''-'' @ ''-''
                @ ReplaceAllString namespace [] @ ReplaceAllString serviceName [])
       @ ''-'' @ take 4 (hex_EncodeToString (md5_Sum (namespace @ serviceName)))"

section \<open>Data\<close>

subsection \<open>Kubernetes objects\<close>

text \<open>\<^verbatim>\<open>intstr.IntOrString\<close>: a 32-bit integer or a string, told apart by \<open>Type\<close>.\<close>

datatype IntOrStringType = intstr_Int | intstr_String

record IntOrString =
  ios_Type :: IntOrStringType
  ios_IntVal :: "32 word"
  ios_StrVal :: string

definition FromInt :: "int \<Rightarrow> IntOrString" where
  "FromInt val = \<lparr>ios_Type = intstr_Int, ios_IntVal = word_of_int val, ios_StrVal = []\<rparr>"

definition FromString :: "string \<Rightarrow> IntOrString" where
  "FromString val = \<lparr>ios_Type = intstr_String, ios_IntVal = 0, ios_StrVal = val\<rparr>"

text \<open>\<^verbatim>\<open>(*IntOrString).String\<close>.\<close>

definition ios_String :: "IntOrString \<Rightarrow> string" where
  "ios_String x = (if ios_Type x = intstr_String then ios_StrVal x else Itoa (sint (ios_IntVal x)))"

text \<open>\<^verbatim>\<open>strconv.Atoi\<close>: an optional sign and decimal digits, within 64 bits.\<close>

definition isDigit :: "char \<Rightarrow> bool" where
  "isDigit c = (48 \<le> (of_char c :: nat) \<and> (of_char c :: nat) \<le> 57)"

definition digitsValue :: "string \<Rightarrow> int" where
  "digitsValue ds = foldl (\<lambda>n ch. n * 10 + (of_char ch - 48)) 0 ds"

definition Atoi :: "string \<Rightarrow> int option" where
  "Atoi s =
     (let neg = (case s of c # _ \<Rightarrow> c = CHR ''-'' | [] \<Rightarrow> False);
          ds = (case s of c # cs \<Rightarrow> if c = CHR ''-'' \<or> c = CHR ''+'' then cs else s | [] \<Rightarrow> [])
      in if ds = [] \<or> \<not> list_all isDigit ds then None
         else (let n = (if neg then - digitsValue ds else digitsValue ds)
               in if n < - (2 ^ 63) \<or> 2 ^ 63 \<le> n then None else Some n))"

text \<open>\<^verbatim>\<open>intstr.Parse\<close>.\<close>

definition Parse :: "string \<Rightarrow> IntOrString" where
  "Parse val = (case Atoi val of None \<Rightarrow> FromString val | Some i \<Rightarrow> FromInt i)"

record ServicePort =
  sp_Name :: string
  sp_Port :: "32 word"
  sp_TargetPort :: IntOrString
  sp_NodePort :: "32 word"

record Service =
  svc_Namespace :: string
  svc_Name :: string
  svc_Ports :: "ServicePort list"

record NamespacedName =
  key_Namespace :: string
  key_Name :: string

record IngressBackend =
  be_ServiceName :: string
  be_ServicePort :: IntOrString

subsection \<open>Cloud resources and requests\<close>

type_synonym tags = "string \<rightharpoonup> string"

type_synonym attributes = "(string option \<times> string option) list"

record Tag =
  tag_Key :: "string option"
  tag_Value :: "string option"

record Subnet =
  sn_SubnetId :: "string option"
  sn_AvailabilityZone :: "string option"

record AvailabilityZone =
  az_ZoneName :: "string option"
  az_SubnetId :: "string option"

record elbv2_LoadBalancer =
  lbi_LoadBalancerArn :: "string option"
  lbi_DNSName :: "string option"
  lbi_Scheme :: "string option"
  lbi_IpAddressType :: "string option"
  lbi_AvailabilityZones :: "AvailabilityZone list"

record CreateLoadBalancerInput =
  clb_Name :: "string option"
  clb_Type :: "string option"
  clb_Scheme :: "string option"
  clb_IpAddressType :: "string option"
  clb_Subnets :: "string list"
  clb_Tags :: tags

record SetIpAddressTypeInput =
  sip_LoadBalancerArn :: "string option"
  sip_IpAddressType :: "string option"

record SetSubnetsInput =
  ssn_LoadBalancerArn :: "string option"
  ssn_Subnets :: "string list"

record Matcher =
  HttpCode :: "string option"

record elbv2_TargetGroup =
  tgi_TargetGroupArn :: "string option"
  tgi_HealthCheckPath :: "string option"
  tgi_HealthCheckPort :: "string option"
  tgi_HealthCheckProtocol :: "string option"
  tgi_HealthCheckIntervalSeconds :: "64 word option"
  tgi_Matcher :: "Matcher option"
  tgi_HealthyThresholdCount :: "64 word option"
  tgi_UnhealthyThresholdCount :: "64 word option"

record CreateTargetGroupInput =
  ctg_Name :: "string option"
  ctg_HealthCheckIntervalSeconds :: "64 word option"
  ctg_HealthCheckPort :: "string option"
  ctg_HealthCheckProtocol :: "string option"
  ctg_TargetType :: "string option"
  ctg_Protocol :: "string option"
  ctg_HealthyThresholdCount :: "64 word option"
  ctg_UnhealthyThresholdCount :: "64 word option"
  ctg_Port :: "64 word option"
  ctg_HealthCheckPath :: "string option"
  ctg_Matcher :: "Matcher option"

record ModifyTargetGroupInput =
  mtg_TargetGroupArn :: "string option"
  mtg_HealthCheckIntervalSeconds :: "64 word option"
  mtg_HealthCheckPort :: "string option"
  mtg_HealthCheckProtocol :: "string option"
  mtg_HealthyThresholdCount :: "64 word option"
  mtg_UnhealthyThresholdCount :: "64 word option"
  mtg_HealthCheckPath :: "string option"
  mtg_Matcher :: "Matcher option"

text \<open>The constants of the AWS SDK that the controllers compare with.\<close>

definition LoadBalancerSchemeEnumInternal :: string where
  "LoadBalancerSchemeEnumInternal = ''internal''"

definition LoadBalancerSchemeEnumInternetFacing :: string where
  "LoadBalancerSchemeEnumInternetFacing = ''internet-facing''"

definition LoadBalancerTypeEnumNetwork :: string where
  "LoadBalancerTypeEnumNetwork = ''network''"

definition TargetTypeEnumInstance :: string where
  "TargetTypeEnumInstance = ''instance''"

subsection \<open>Annotations and configuration\<close>

text \<open>The parsed annotations of a service, with the fields the controllers read. The load
  balancer part is \<^verbatim>\<open>loadbalancer.Config\<close>; the declarations of the other parts are outside the
  sources modelled here and are taken with the fields and pointer types that the controllers use.\<close>

record loadbalancer_Config =
  lba_Scheme :: "string option"
  lba_IPAddressType :: "string option"
  lba_Type :: "string option"
  lba_Subnets :: "string list"
  lba_Attributes :: attributes

record healthcheck_Config =
  hc_Path :: "string option"
  hc_Port :: "string option"
  hc_Protocol :: "string option"
  hc_IntervalSeconds :: "64 word option"

record targetgroup_Config =
  tga_BackendProtocol :: "string option"
  tga_TargetType :: "string option"
  tga_SuccessCodes :: "string option"
  tga_HealthyThresholdCount :: "64 word option"
  tga_UnhealthyThresholdCount :: "64 word option"
  tga_Attributes :: attributes

record tags_Config =
  tags_LoadBalancer :: tags

record annotations_Service =
  LoadBalancer :: loadbalancer_Config
  HealthCheck :: healthcheck_Config
  TargetGroup :: targetgroup_Config
  Tags :: tags_Config

record Configuration =
  RestrictScheme :: bool
  InternetFacingServices :: "string \<rightharpoonup> string list"

subsection \<open>What the controllers produce\<close>

record loadBalancerConfig =
  cfg_Name :: string
  cfg_Tags :: tags
  cfg_Type :: "string option"
  cfg_Scheme :: "string option"
  cfg_IpAddressType :: "string option"
  cfg_Subnets :: "string list"

record LoadBalancer =
  Arn :: string
  DNSName :: string

text \<open>Modelled from the spec: the declarations of \<^verbatim>\<open>tg.TargetGroup\<close>, its targets and
  \<^verbatim>\<open>tg.TargetGroupGroup\<close> are outside the sources modelled here. A target is one registered endpoint
  (address or instance id, port); a target group has an ARN, a target type and its targets;
  the group maps each backend of the service to its target group (the listener rules read it as
  \<^verbatim>\<open>tgGroup.TGByBackend[backend]\<close>).\<close>

record Target =
  target_Id :: string
  target_Port :: int

record TargetGroup =
  tg_Arn :: string
  tg_TargetType :: string
  tg_Targets :: "Target list"

record TargetGroupGroup =
  TGByBackend :: "(IngressBackend \<times> TargetGroup) list"

section \<open>Calls and collaborators\<close>

text \<open>
  The controllers reach the cloud, the object store and the other controllers through
  interfaces. Each method of an interface is a function from its arguments to its result, and
  a controller's run returns the calls it made, in order, beside its result. Logging and
  events are left out.\<close>

datatype call =
    Cloud_GetLoadBalancerByName string
  | Cloud_CreateLoadBalancerWithContext CreateLoadBalancerInput
  | Cloud_DeleteLoadBalancerByArn string
  | Cloud_SetIpAddressTypeWithContext SetIpAddressTypeInput
  | Cloud_SetSubnetsWithContext SetSubnetsInput
  | Cloud_GetSubnetsByNameOrID "string list"
  | Cloud_GetClusterSubnets
  | Cloud_GetTargetGroupByName string
  | Cloud_CreateTargetGroupWithContext CreateTargetGroupInput
  | Cloud_ModifyTargetGroupWithContext ModifyTargetGroupInput
  | Store_GetServiceAnnotations string
  | Store_GetService string
  | LBTags_ReconcileELB string tags
  | LBAttrs_Reconcile string attributes
  | TGGroup_Reconcile Service
  | TGGroup_GC TargetGroupGroup
  | TGGroup_Delete NamespacedName
  | LSGroup_Reconcile string Service TargetGroupGroup
  | LSGroup_Delete string
  | TGTags_ReconcileELB string tags
  | TGAttrs_Reconcile string attributes
  | Targets_Reconcile string string Service IngressBackend

text \<open>The calls of the cloud API that change a cloud resource.\<close>

fun mutating :: "call \<Rightarrow> bool" where
  "mutating (Cloud_CreateLoadBalancerWithContext _) = True"
| "mutating (Cloud_DeleteLoadBalancerByArn _) = True"
| "mutating (Cloud_SetIpAddressTypeWithContext _) = True"
| "mutating (Cloud_SetSubnetsWithContext _) = True"
| "mutating (Cloud_CreateTargetGroupWithContext _) = True"
| "mutating (Cloud_ModifyTargetGroupWithContext _) = True"
| "mutating _ = False"

text \<open>The calls of \<open>Reconcile\<close> to the controllers of the target groups and of the listeners.\<close>

fun groupCall :: "call \<Rightarrow> bool" where
  "groupCall (TGGroup_Reconcile _) = True"
| "groupCall (LSGroup_Reconcile _ _ _) = True"
| "groupCall (TGGroup_GC _) = True"
| "groupCall _ = False"

type_synonym 'a io = "call list \<times> (error + 'a)"

definition pure :: "'a \<Rightarrow> 'a io" where
  "pure x = ([], Inr x)"

definition failWith :: "error \<Rightarrow> 'a io" where
  "failWith e = ([], Inl e)"

text \<open>A call that returns \<^verbatim>\<open>(T, error)\<close>, and one that returns only \<^verbatim>\<open>error\<close>.\<close>

definition invoke :: "call \<Rightarrow> error + 'a \<Rightarrow> 'a io" where
  "invoke c r = ([c], r)"

definition perform :: "call \<Rightarrow> error option \<Rightarrow> unit io" where
  "perform c r = ([c], case r of None \<Rightarrow> Inr () | Some e \<Rightarrow> Inl e)"

text \<open>Sequencing with \<^verbatim>\<open>if err != nil { return ..., err }\<close>: an error ends the run.\<close>

definition bind :: "'a io \<Rightarrow> ('a \<Rightarrow> 'b io) \<Rightarrow> 'b io" where
  "bind m f =
     (case m of
        (cs, Inl e) \<Rightarrow> (cs, Inl e)
      | (cs, Inr x) \<Rightarrow> (case f x of (cs', r) \<Rightarrow> (cs @ cs', r)))"

text \<open>\<^verbatim>\<open>if err != nil { return ..., wrap(err) }\<close>.\<close>

definition onError :: "(error \<Rightarrow> error) \<Rightarrow> 'a io \<Rightarrow> 'a io" where
  "onError wrap m = (case m of (cs, Inl e) \<Rightarrow> (cs, Inl (wrap e)) | (cs, Inr x) \<Rightarrow> (cs, Inr x))"

text \<open>A function that returns a value beside its error has the pair on the left; a caller
  that reads only the error drops the value.\<close>

type_synonym 'a io2 = "call list \<times> ((error \<times> 'a) + 'a)"

definition errorOnly :: "'a io2 \<Rightarrow> 'a io" where
  "errorOnly m = (case m of (cs, Inl (e, _)) \<Rightarrow> (cs, Inl e) | (cs, Inr x) \<Rightarrow> (cs, Inr x))"

record CloudAPI =
  cloud_GetLoadBalancerByName :: "string \<Rightarrow> error + elbv2_LoadBalancer option"
  cloud_CreateLoadBalancerWithContext :: "CreateLoadBalancerInput \<Rightarrow> error + elbv2_LoadBalancer list"
  cloud_DeleteLoadBalancerByArn :: "string \<Rightarrow> error option"
  cloud_SetIpAddressTypeWithContext :: "SetIpAddressTypeInput \<Rightarrow> error option"
  cloud_SetSubnetsWithContext :: "SetSubnetsInput \<Rightarrow> error option"
  cloud_GetSubnetsByNameOrID :: "string list \<Rightarrow> error + Subnet list"
  cloud_GetClusterSubnets :: "error + (string \<times> Tag list) list"
  cloud_GetTargetGroupByName :: "string \<Rightarrow> error + elbv2_TargetGroup option"
  cloud_CreateTargetGroupWithContext :: "CreateTargetGroupInput \<Rightarrow> error + elbv2_TargetGroup list"
  cloud_ModifyTargetGroupWithContext :: "ModifyTargetGroupInput \<Rightarrow> error + elbv2_TargetGroup list"

record Storer =
  store_GetServiceAnnotations :: "string \<Rightarrow> error + annotations_Service"
  store_GetService :: "string \<Rightarrow> error + Service"
  store_GetConfig :: Configuration

text \<open>The interface \<^verbatim>\<open>NameTagGenerator\<close> of the two controllers; \<open>NameLB\<close> above implements its
  first method.\<close>

record NameTagGenerator =
  gen_NameLB :: "string \<Rightarrow> string \<Rightarrow> string"
  gen_TagLB :: "string \<Rightarrow> string \<Rightarrow> tags"
  gen_NameTG :: "string \<Rightarrow> string \<Rightarrow> string \<Rightarrow> string \<Rightarrow> string \<Rightarrow> string"
  gen_TagTGGroup :: "string \<Rightarrow> string \<Rightarrow> tags"
  gen_TagTG :: "string \<Rightarrow> string \<Rightarrow> tags"

text \<open>Declarations of other packages of the repository that the sources modelled here use and do
  not contain: the key of a service in the store, the lookup of a port on a service, the
  sentinel health check port, the tag keys that mark the subnets of a scheme, and the printer
  of a subnet list in an error message.\<close>

record Packages =
  k8s_MetaNamespaceKey :: "Service \<Rightarrow> string"
  k8s_LookupServicePort :: "Service \<Rightarrow> IntOrString \<Rightarrow> error + ServicePort"
  healthcheck_DefaultPort :: string
  aws_TagNameSubnetInternalELB :: string
  aws_TagNameSubnetPublicELB :: string
  aws_TagNameCluster :: string
  log_Prettify :: "string list \<Rightarrow> string"

text \<open>Modelled from the spec: \<^verbatim>\<open>util.DeepEqual\<close> (package \<^verbatim>\<open>pkg/util/types\<close>, outside the sources
  modelled here) is the field-by-field comparison of a live value with the desired one: two pointers
  are equal when both are \<^verbatim>\<open>nil\<close> or both point to equal values.\<close>

definition DeepEqual :: "'a option \<Rightarrow> 'a option \<Rightarrow> bool" where
  "DeepEqual x y = (x = y)"

text \<open>Modelled from the spec: \<^verbatim>\<open>util.AvailabilityZones(...).AsSubnets()\<close> (same package) gives
  the subnets of a live load balancer, one for each of its availability zones.\<close>

definition AsSubnets :: "AvailabilityZone list \<Rightarrow> string option list" where
  "AsSubnets azs = map az_SubnetId azs"

section \<open>The load balancer controller (package \<^verbatim>\<open>lb\<close>)\<close>

record lb_Controller =
  lb_cloud :: CloudAPI
  lb_store :: Storer
  lb_nameTagGen :: NameTagGenerator
  lb_packages :: Packages
  tgGroupController_Reconcile :: "Service \<Rightarrow> error + TargetGroupGroup"
  tgGroupController_GC :: "TargetGroupGroup \<Rightarrow> error option"
  tgGroupController_Delete :: "NamespacedName \<Rightarrow> error option"
  lsGroupController_Reconcile :: "string \<Rightarrow> Service \<Rightarrow> TargetGroupGroup \<Rightarrow> error option"
  lsGroupController_Delete :: "string \<Rightarrow> error option"
  lb_tagsController_ReconcileELB :: "string \<Rightarrow> tags \<Rightarrow> error option"
  lb_attrsController_Reconcile :: "string \<Rightarrow> attributes \<Rightarrow> error option"

subsection \<open>Subnets\<close>

text \<open>\<open>subnetIsUsable\<close> dereferences the availability zone of the new subnet and of each
  existing one it reaches.\<close>

fun subnetIsUsable :: "Subnet \<Rightarrow> Subnet list \<Rightarrow> error + bool" where
  "subnetIsUsable new [] = Inr True"
| "subnetIsUsable new (subnet # existing) =
     (case (sn_AvailabilityZone new, sn_AvailabilityZone subnet) of
        (Some newZone, Some zone) \<Rightarrow>
          if newZone = zone then Inr False else subnetIsUsable new existing
      | _ \<Rightarrow> Inl nilDereference)"

text \<open>The first loop of \<open>clusterSubnets\<close>: for every tag with the key of the scheme, the last
  piece of the ARN of its subnet.\<close>

definition taggedSubnetIds :: "string \<Rightarrow> (string \<times> Tag list) list \<Rightarrow> string list" where
  "taggedSubnetIds key clusterSubnets =
     concat (map (\<lambda>(arn, subnetTags).
       concat (map (\<lambda>tag. if StringValue (tag_Key tag) = key
                           then [last (Split arn CHR ''/'')] else []) subnetTags))
       clusterSubnets)"

text \<open>The second loop: \<open>useableSubnets\<close> and \<open>out\<close> grow by the subnets that are usable.\<close>

fun keepUsable :: "Subnet list \<Rightarrow> Subnet list \<Rightarrow> string list \<Rightarrow> error + string list" where
  "keepUsable [] useableSubnets out = Inr out"
| "keepUsable (subnet # rest) useableSubnets out =
     (case subnetIsUsable subnet useableSubnets of
        Inl e \<Rightarrow> Inl e
      | Inr usable \<Rightarrow>
          if usable
          then keepUsable rest (useableSubnets @ [subnet]) (out @ [StringValue (sn_SubnetId subnet)])
          else keepUsable rest useableSubnets out)"

definition tooFewSubnets :: "Packages \<Rightarrow> string \<Rightarrow> string list \<Rightarrow> error" where
  "tooFewSubnets pkgs key out =
     Error (''retrieval of subnets failed to resolve 2 qualified subnets. Subnets must ''
       @ ''contain the '' @ aws_TagNameCluster pkgs
       @ ''/<cluster name> tag with a value of shared or owned and the '' @ key
       @ '' tag signifying it should be used for ALBs ''
       @ ''Additionally, there must be at least 2 subnets with unique availability zones as required by ''
       @ ''ALBs. Either tag subnets to meet this requirement or use the subnets annotation on the ''
       @ ''service resource to explicitly call out what subnets to use for ALB creation. The subnets ''
       @ ''that did resolve were '' @ log_Prettify pkgs out)"

definition clusterSubnets :: "lb_Controller \<Rightarrow> string \<Rightarrow> string list io" where
  "clusterSubnets controller scheme =
     (case (if scheme = LoadBalancerSchemeEnumInternal
              then Some (aws_TagNameSubnetInternalELB (lb_packages controller))
            else if scheme = LoadBalancerSchemeEnumInternetFacing
              then Some (aws_TagNameSubnetPublicELB (lb_packages controller))
            else None) of
        None \<Rightarrow> failWith (Error (''invalid scheme ['' @ scheme @ '']''))
      | Some key \<Rightarrow>
          bind (onError (Errorf ''failed to get AWS tags. Error: '')
                 (invoke Cloud_GetClusterSubnets (cloud_GetClusterSubnets (lb_cloud controller))))
            (\<lambda>clusterSubnets.
              let subnetIds = taggedSubnetIds key clusterSubnets in
              bind (onError (Errorf ''unable to fetch subnets due to '')
                     (invoke (Cloud_GetSubnetsByNameOrID subnetIds)
                        (cloud_GetSubnetsByNameOrID (lb_cloud controller) subnetIds)))
                (\<lambda>subnets.
                  case keepUsable subnets [] [] of
                    Inl e \<Rightarrow> failWith e
                  | Inr out \<Rightarrow>
                      if length out < 2 then failWith (tooFewSubnets (lb_packages controller) key out)
                      else pure (sort out))))"

definition resolveSubnets :: "lb_Controller \<Rightarrow> string \<Rightarrow> string list \<Rightarrow> string list io2" where
  "resolveSubnets controller scheme in' =
     (if length in' = 0 then
        (case clusterSubnets controller scheme of
           (cs, Inl err) \<Rightarrow> (cs, Inl (err, []))
         | (cs, Inr subnets) \<Rightarrow> (cs, Inr subnets))
      else
        let names = filter (\<lambda>subnet. \<not> HasPrefix subnet ''subnet-'') in';
            subnets = filter (\<lambda>subnet. HasPrefix subnet ''subnet-'') in'
        in case (if length names > 0 then
                   (case cloud_GetSubnetsByNameOrID (lb_cloud controller) names of
                      Inl err \<Rightarrow> ([Cloud_GetSubnetsByNameOrID names], Inl (err, subnets))
                    | Inr found \<Rightarrow>
                        ([Cloud_GetSubnetsByNameOrID names],
                         Inr (subnets @ map (\<lambda>subnet. StringValue (sn_SubnetId subnet)) found)))
                 else ([], Inr subnets)) of
             (cs, Inl failed) \<Rightarrow> (cs, Inl failed)
           | (cs, Inr subnets) \<Rightarrow>
               (let subnets = sort subnets
                in if length subnets \<noteq> length in' then
                     (cs, Inl (Error (''not all subnets were resolvable, ('' @ Join in' '',''
                                        @ '' != '' @ Join subnets '','' @ '')''), subnets))
                   else (cs, Inr subnets)))"

text \<open>The subnets that the specification keeps: at most one of each availability zone, the
  first one encountered.\<close>

function spec_firstPerZone :: "Subnet list \<Rightarrow> Subnet list" where
  "spec_firstPerZone [] = []"
| "spec_firstPerZone (subnet # rest) =
     subnet # spec_firstPerZone
                (filter (\<lambda>other. sn_AvailabilityZone other \<noteq> sn_AvailabilityZone subnet) rest)"
  by pat_completeness auto
termination
  by (relation "measure length") (auto simp: less_Suc_eq_le)

subsection \<open>The desired configuration\<close>

definition buildLBConfig ::
  "lb_Controller \<Rightarrow> Service \<Rightarrow> annotations_Service \<Rightarrow> loadBalancerConfig io" where
  "buildLBConfig controller service serviceAnnos =
     (let lbTags = gen_TagLB (lb_nameTagGen controller) (svc_Namespace service) (svc_Name service)
                     ++ tags_LoadBalancer (Tags serviceAnnos)
      in bind (errorOnly (resolveSubnets controller
                            (StringValue (lba_Scheme (LoadBalancer serviceAnnos)))
                            (lba_Subnets (LoadBalancer serviceAnnos))))
           (\<lambda>subnets. pure
             \<lparr>cfg_Name = gen_NameLB (lb_nameTagGen controller) (svc_Namespace service) (svc_Name service),
              cfg_Tags = lbTags,
              cfg_Type = Some LoadBalancerTypeEnumNetwork,
              cfg_Scheme = lba_Scheme (LoadBalancer serviceAnnos),
              cfg_IpAddressType = lba_IPAddressType (LoadBalancer serviceAnnos),
              cfg_Subnets = subnets\<rparr>))"

definition validateLBConfig :: "lb_Controller \<Rightarrow> Service \<Rightarrow> loadBalancerConfig \<Rightarrow> error option" where
  "validateLBConfig controller service lbConfig =
     (let controllerCfg = store_GetConfig (lb_store controller)
      in if RestrictScheme controllerCfg
            \<and> StringValue (cfg_Scheme lbConfig) = LoadBalancerSchemeEnumInternetFacing
         then
           (let whitelisted =
                  (svc_Name service \<in> set (case InternetFacingServices controllerCfg (svc_Namespace service) of
                                              None \<Rightarrow> [] | Some names \<Rightarrow> names))
            in if \<not> whitelisted then
                 Some (Error (''service '' @ svc_Namespace service @ ''/'' @ svc_Name service
                                @ '' is not in internetFacing whitelist''))
               else None)
         else None)"

subsection \<open>The load balancer instance\<close>

definition newLBInstance :: "lb_Controller \<Rightarrow> loadBalancerConfig \<Rightarrow> elbv2_LoadBalancer io" where
  "newLBInstance controller lbConfig =
     (let input = \<lparr>clb_Name = Some (cfg_Name lbConfig),
                    clb_Type = cfg_Type lbConfig,
                    clb_Scheme = cfg_Scheme lbConfig,
                    clb_IpAddressType = cfg_IpAddressType lbConfig,
                    clb_Subnets = cfg_Subnets lbConfig,
                    clb_Tags = cfg_Tags lbConfig\<rparr>
      in bind (invoke (Cloud_CreateLoadBalancerWithContext input)
                 (cloud_CreateLoadBalancerWithContext (lb_cloud controller) input))
           (\<lambda>resp. case resp of
                      [] \<Rightarrow> failWith indexOutOfRange
                    | instance # _ \<Rightarrow> pure instance))"

definition recreateLBInstance ::
  "lb_Controller \<Rightarrow> elbv2_LoadBalancer \<Rightarrow> loadBalancerConfig \<Rightarrow> elbv2_LoadBalancer io" where
  "recreateLBInstance controller existingInstance lbConfig =
     (let existingLBArn = StringValue (lbi_LoadBalancerArn existingInstance)
      in bind (perform (Cloud_DeleteLoadBalancerByArn existingLBArn)
                 (cloud_DeleteLoadBalancerByArn (lb_cloud controller) existingLBArn))
           (\<lambda>_. newLBInstance controller lbConfig))"

definition reconcileLBInstance ::
  "lb_Controller \<Rightarrow> elbv2_LoadBalancer \<Rightarrow> loadBalancerConfig \<Rightarrow> unit io" where
  "reconcileLBInstance controller instance lbConfig =
     (let lbArn = StringValue (lbi_LoadBalancerArn instance)
      in bind (if \<not> DeepEqual (lbi_IpAddressType instance) (cfg_IpAddressType lbConfig) then
                 (let input = \<lparr>sip_LoadBalancerArn = lbi_LoadBalancerArn instance,
                                sip_IpAddressType = cfg_IpAddressType lbConfig\<rparr>
                  in onError (Errorf (''failed to modify IpAddressType of '' @ lbArn @ '' due to ''))
                       (perform (Cloud_SetIpAddressTypeWithContext input)
                          (cloud_SetIpAddressTypeWithContext (lb_cloud controller) input)))
               else pure ())
           (\<lambda>_.
             let desiredSubnets = set (cfg_Subnets lbConfig);
                 currentSubnets = set (map StringValue (AsSubnets (lbi_AvailabilityZones instance)))
             in bind (if currentSubnets \<noteq> desiredSubnets then
                        (let input = \<lparr>ssn_LoadBalancerArn = lbi_LoadBalancerArn instance,
                                       ssn_Subnets = cfg_Subnets lbConfig\<rparr>
                         in onError (Errorf (''failed to modify Subnets of '' @ lbArn @ '' due to ''))
                              (perform (Cloud_SetSubnetsWithContext input)
                                 (cloud_SetSubnetsWithContext (lb_cloud controller) input)))
                      else pure ())
                  (\<lambda>_. onError (Errorf (''failed to reconcile tags of '' @ lbArn @ '' due to ''))
                         (perform (LBTags_ReconcileELB lbArn (cfg_Tags lbConfig))
                            (lb_tagsController_ReconcileELB controller lbArn (cfg_Tags lbConfig))))))"

definition isLBInstanceNeedRecreation :: "elbv2_LoadBalancer \<Rightarrow> loadBalancerConfig \<Rightarrow> bool" where
  "isLBInstanceNeedRecreation instance lbConfig =
     (if \<not> DeepEqual (lbi_Scheme instance) (cfg_Scheme lbConfig) then True else False)"

definition ensureLBInstance :: "lb_Controller \<Rightarrow> loadBalancerConfig \<Rightarrow> elbv2_LoadBalancer io" where
  "ensureLBInstance controller lbConfig =
     bind (onError (Errorf ''failed to find existing LoadBalancer due to '')
            (invoke (Cloud_GetLoadBalancerByName (cfg_Name lbConfig))
               (cloud_GetLoadBalancerByName (lb_cloud controller) (cfg_Name lbConfig))))
       (\<lambda>found. case found of
          None \<Rightarrow>
            onError (Errorf ''failed to create LoadBalancer due to '')
              (newLBInstance controller lbConfig)
        | Some instance \<Rightarrow>
            if isLBInstanceNeedRecreation instance lbConfig then
              onError (Errorf ''failed to recreate LoadBalancer due to '')
                (recreateLBInstance controller instance lbConfig)
            else
              bind (reconcileLBInstance controller instance lbConfig) (\<lambda>_. pure instance))"

subsection \<open>\<^verbatim>\<open>Reconcile\<close> and \<^verbatim>\<open>Delete\<close>\<close>

definition lb_Reconcile :: "lb_Controller \<Rightarrow> Service \<Rightarrow> LoadBalancer io" where
  "lb_Reconcile controller service =
     (let key = k8s_MetaNamespaceKey (lb_packages controller) service
      in bind (invoke (Store_GetServiceAnnotations key)
                 (store_GetServiceAnnotations (lb_store controller) key))
      (\<lambda>serviceAnnos.
        bind (onError (Errorf ''failed to build LoadBalancer configuration due to '')
               (buildLBConfig controller service serviceAnnos))
        (\<lambda>lbConfig.
          case validateLBConfig controller service lbConfig of
            Some err \<Rightarrow> failWith err
          | None \<Rightarrow>
              bind (ensureLBInstance controller lbConfig)
              (\<lambda>instance.
                let lbArn = StringValue (lbi_LoadBalancerArn instance);
                    attrs = lba_Attributes (LoadBalancer serviceAnnos)
                in bind (onError (Errorf (''failed to reconcile attributes of '' @ lbArn @ '' due to ''))
                          (perform (LBAttrs_Reconcile lbArn attrs)
                             (lb_attrsController_Reconcile controller lbArn attrs)))
                (\<lambda>_.
                  bind (onError (Errorf ''failed to reconcile targetGroups due to '')
                         (invoke (TGGroup_Reconcile service)
                            (tgGroupController_Reconcile controller service)))
                  (\<lambda>tgGroup.
                    bind (onError (Errorf ''failed to reconcile listeners due to '')
                           (perform (LSGroup_Reconcile lbArn service tgGroup)
                              (lsGroupController_Reconcile controller lbArn service tgGroup)))
                    (\<lambda>_.
                      bind (onError (Errorf ''failed to GC targetGroups due to '')
                             (perform (TGGroup_GC tgGroup)
                                (tgGroupController_GC controller tgGroup)))
                      (\<lambda>_. pure \<lparr>Arn = lbArn,
                                  DNSName = StringValue (lbi_DNSName instance)\<rparr>))))))))"

definition lb_Delete :: "lb_Controller \<Rightarrow> NamespacedName \<Rightarrow> unit io" where
  "lb_Delete controller key =
     (let lbName = gen_NameLB (lb_nameTagGen controller) (key_Namespace key) (key_Name key)
      in bind (onError (Errorf ''failed to find existing LoadBalancer due to '')
                 (invoke (Cloud_GetLoadBalancerByName lbName)
                    (cloud_GetLoadBalancerByName (lb_cloud controller) lbName)))
      (\<lambda>found. case found of
         None \<Rightarrow> pure ()
       | Some instance \<Rightarrow>
           (let lbArn = StringValue (lbi_LoadBalancerArn instance)
            in bind (onError (Errorf ''failed to delete listeners due to '')
                      (perform (LSGroup_Delete lbArn) (lsGroupController_Delete controller lbArn)))
               (\<lambda>_.
                 bind (onError (Errorf ''failed to GC targetGroups due to '')
                        (perform (TGGroup_Delete key) (tgGroupController_Delete controller key)))
                 (\<lambda>_. perform (Cloud_DeleteLoadBalancerByArn lbArn)
                        (cloud_DeleteLoadBalancerByArn (lb_cloud controller) lbArn))))))"

text \<open>Modelled from the spec: \<^verbatim>\<open>GC\<close> of the target group group controller is outside the
  sources modelled here. It enumerates the target groups tagged as owned by the service that are not
  present in the group, and deletes each; \<open>spec_GC owned tgGroup\<close> is the ARNs it deletes, given
  the ARNs of the owned target groups.\<close>

definition spec_GC :: "string list \<Rightarrow> TargetGroupGroup \<Rightarrow> string list" where
  "spec_GC owned tgGroup =
     filter (\<lambda>arn. arn \<notin> set (map (\<lambda>(backend, targetGroup). tg_Arn targetGroup) (TGByBackend tgGroup))) owned"

text \<open>Modelled from the spec: the target groups of the service that a call to a controller of
  the target groups deletes, where \<open>owned\<close> are the ARNs of the target groups that the cloud
  holds tagged as owned by the service when the call is made. \<^verbatim>\<open>GC(group)\<close> deletes those not
  present in the group; \<^verbatim>\<open>Delete(key)\<close> deletes every one of them; the convergence of the target
  groups and that of the listeners delete none, and the other calls are not to these
  controllers. \<open>spec_deleted owned calls\<close> is what the calls of a run delete; a run of
  \<open>Reconcile\<close> or of \<open>Delete\<close> has at most one call that deletes.\<close>

fun spec_deletedBy :: "string list \<Rightarrow> call \<Rightarrow> string list" where
  "spec_deletedBy owned (TGGroup_GC tgGroup) = spec_GC owned tgGroup"
| "spec_deletedBy owned (TGGroup_Delete key) = owned"
| "spec_deletedBy owned _ = []"

definition spec_deleted :: "string list \<Rightarrow> call list \<Rightarrow> string list" where
  "spec_deleted owned calls = concat (map (spec_deletedBy owned) calls)"

section \<open>The target group controller (package \<^verbatim>\<open>tg\<close>)\<close>

record tg_Controller =
  tg_cloud :: CloudAPI
  tg_store :: Storer
  tg_nameTagGen :: NameTagGenerator
  tg_packages :: Packages
  tg_tagsController_ReconcileELB :: "string \<Rightarrow> tags \<Rightarrow> error option"
  tg_attrsController_Reconcile :: "string \<Rightarrow> attributes \<Rightarrow> error option"
  targetsController_Reconcile :: "string \<Rightarrow> string \<Rightarrow> Service \<Rightarrow> IngressBackend \<Rightarrow> error + Target list"

definition targetGroupDefaultPort :: "64 word" where
  "targetGroupDefaultPort = 1"

text \<open>\<^verbatim>\<open>*protocol == "HTTP" || *protocol == "HTTPS"\<close>, which dereferences the pointer.\<close>

definition isHTTPOrHTTPS :: "string option \<Rightarrow> error + bool" where
  "isHTTPOrHTTPS protocol =
     (case protocol of
        None \<Rightarrow> Inl nilDereference
      | Some p \<Rightarrow> Inr (p = ''HTTP'' \<or> p = ''HTTPS''))"

definition newTGInstance ::
  "tg_Controller \<Rightarrow> string \<Rightarrow> annotations_Service \<Rightarrow> string \<Rightarrow> elbv2_TargetGroup io" where
  "newTGInstance controller name serviceAnnos healthCheckPort =
     (let nlbTargetGroup =
            \<lparr>ctg_Name = Some name,
             ctg_HealthCheckIntervalSeconds = hc_IntervalSeconds (HealthCheck serviceAnnos),
             ctg_HealthCheckPort = Some healthCheckPort,
             ctg_HealthCheckProtocol = hc_Protocol (HealthCheck serviceAnnos),
             ctg_TargetType = tga_TargetType (TargetGroup serviceAnnos),
             ctg_Protocol = tga_BackendProtocol (TargetGroup serviceAnnos),
             ctg_HealthyThresholdCount = tga_HealthyThresholdCount (TargetGroup serviceAnnos),
             ctg_UnhealthyThresholdCount = tga_UnhealthyThresholdCount (TargetGroup serviceAnnos),
             ctg_Port = Some targetGroupDefaultPort,
             ctg_HealthCheckPath = None,
             ctg_Matcher = None\<rparr>
      in case isHTTPOrHTTPS (ctg_HealthCheckProtocol nlbTargetGroup) of
           Inl e \<Rightarrow> failWith e
         | Inr http \<Rightarrow>
             (let nlbTargetGroup =
                    (if http then
                       nlbTargetGroup
                         \<lparr>ctg_HealthCheckPath := hc_Path (HealthCheck serviceAnnos),
                          ctg_Matcher := Some \<lparr>HttpCode = tga_SuccessCodes (TargetGroup serviceAnnos)\<rparr>\<rparr>
                     else nlbTargetGroup)
              in bind (invoke (Cloud_CreateTargetGroupWithContext nlbTargetGroup)
                         (cloud_CreateTargetGroupWithContext (tg_cloud controller) nlbTargetGroup))
                   (\<lambda>resp. case resp of
                              [] \<Rightarrow> failWith indexOutOfRange
                            | tgInstance # _ \<Rightarrow> pure tgInstance)))"

text \<open>\<open>TGInstanceNeedsModification\<close> runs its comparisons in the order of the source. The left
  operand of each \<^verbatim>\<open>&&\<close> is evaluated first, and the right one, which dereferences the desired
  protocol, only when the left one holds; \<^verbatim>\<open>instance.Matcher.HttpCode\<close> is in a left operand.\<close>

definition TGInstanceNeedsModification ::
  "elbv2_TargetGroup \<Rightarrow> annotations_Service \<Rightarrow> error + bool" where
  "TGInstanceNeedsModification instance serviceAnnos =
     (case (if \<not> DeepEqual (tgi_HealthCheckPath instance) (hc_Path (HealthCheck serviceAnnos))
            then isHTTPOrHTTPS (hc_Protocol (HealthCheck serviceAnnos)) else Inr False) of
        Inl e \<Rightarrow> Inl e
      | Inr pathChanged \<Rightarrow>
          (let needsChange = (if pathChanged then True else False);
               needsChange =
                 (if \<not> DeepEqual (tgi_HealthCheckPort instance) (hc_Port (HealthCheck serviceAnnos))
                  then True else needsChange);
               needsChange =
                 (if \<not> DeepEqual (tgi_HealthCheckProtocol instance) (hc_Protocol (HealthCheck serviceAnnos))
                  then True else needsChange);
               needsChange =
                 (if \<not> DeepEqual (tgi_HealthCheckIntervalSeconds instance)
                                 (hc_IntervalSeconds (HealthCheck serviceAnnos))
                  then True else needsChange)
           in case tgi_Matcher instance of
                None \<Rightarrow> Inl nilDereference
              | Some matcher \<Rightarrow>
                  (case (if \<not> DeepEqual (HttpCode matcher) (tga_SuccessCodes (TargetGroup serviceAnnos))
                         then isHTTPOrHTTPS (hc_Protocol (HealthCheck serviceAnnos)) else Inr False) of
                     Inl e \<Rightarrow> Inl e
                   | Inr codesChanged \<Rightarrow>
                       (let needsChange = (if codesChanged then True else needsChange);
                            needsChange =
                              (if \<not> DeepEqual (tgi_HealthyThresholdCount instance)
                                              (tga_HealthyThresholdCount (TargetGroup serviceAnnos))
                               then True else needsChange);
                            needsChange =
                              (if \<not> DeepEqual (tgi_UnhealthyThresholdCount instance)
                                              (tga_UnhealthyThresholdCount (TargetGroup serviceAnnos))
                               then True else needsChange)
                        in Inr needsChange))))"

text \<open>The request that \<open>reconcileTGInstance\<close> sends when a modification is needed.\<close>

definition modifyTargetGroupInput ::
  "elbv2_TargetGroup \<Rightarrow> annotations_Service \<Rightarrow> string \<Rightarrow> bool \<Rightarrow> ModifyTargetGroupInput" where
  "modifyTargetGroupInput instance serviceAnnos healthCheckPort http =
     (let nlbTargetGroup =
            \<lparr>mtg_TargetGroupArn = tgi_TargetGroupArn instance,
             mtg_HealthCheckIntervalSeconds = hc_IntervalSeconds (HealthCheck serviceAnnos),
             mtg_HealthCheckPort = Some healthCheckPort,
             mtg_HealthCheckProtocol = hc_Protocol (HealthCheck serviceAnnos),
             mtg_HealthyThresholdCount = tga_HealthyThresholdCount (TargetGroup serviceAnnos),
             mtg_UnhealthyThresholdCount = tga_UnhealthyThresholdCount (TargetGroup serviceAnnos),
             mtg_HealthCheckPath = None,
             mtg_Matcher = None\<rparr>
      in if http then
           nlbTargetGroup
             \<lparr>mtg_HealthCheckPath := hc_Path (HealthCheck serviceAnnos),
              mtg_Matcher := Some \<lparr>HttpCode = tga_SuccessCodes (TargetGroup serviceAnnos)\<rparr>\<rparr>
         else nlbTargetGroup)"

text \<open>On an error of the cloud the source returns the unmodified instance beside the error;
  its caller reads only the error.\<close>

definition reconcileTGInstance ::
  "tg_Controller \<Rightarrow> elbv2_TargetGroup \<Rightarrow> annotations_Service \<Rightarrow> string \<Rightarrow> elbv2_TargetGroup io" where
  "reconcileTGInstance controller instance serviceAnnos healthCheckPort =
     (case TGInstanceNeedsModification instance serviceAnnos of
        Inl e \<Rightarrow> failWith e
      | Inr needsModification \<Rightarrow>
          if needsModification then
            (case isHTTPOrHTTPS (hc_Protocol (HealthCheck serviceAnnos)) of
               Inl e \<Rightarrow> failWith e
             | Inr http \<Rightarrow>
                 (let nlbTargetGroup = modifyTargetGroupInput instance serviceAnnos healthCheckPort http
                  in bind (invoke (Cloud_ModifyTargetGroupWithContext nlbTargetGroup)
                             (cloud_ModifyTargetGroupWithContext (tg_cloud controller) nlbTargetGroup))
                       (\<lambda>output. case output of
                                    [] \<Rightarrow> failWith indexOutOfRange
                                  | modified # _ \<Rightarrow> pure modified)))
          else pure instance)"

definition resolveServiceHealthCheckPort ::
  "tg_Controller \<Rightarrow> string \<Rightarrow> string \<Rightarrow> IntOrString \<Rightarrow> string \<Rightarrow> string io2" where
  "resolveServiceHealthCheckPort controller namespace serviceName servicePortAnnotation targetType =
     (if ios_Type servicePortAnnotation = intstr_Int then
        ([], Inr (ios_String servicePortAnnotation))
      else
        let servicePort = ios_String servicePortAnnotation
        in if servicePort = healthcheck_DefaultPort (tg_packages controller) then
             ([], Inr servicePort)
           else
             let serviceKey = namespace @ ''/'' @ serviceName
             in case store_GetService (tg_store controller) serviceKey of
                  Inl err \<Rightarrow>
                    ([Store_GetService serviceKey],
                     Inl (Wrap err ''failed to resolve healthcheck service name'', servicePort))
                | Inr service \<Rightarrow>
                    (case k8s_LookupServicePort (tg_packages controller) service servicePortAnnotation of
                       Inl err \<Rightarrow>
                         ([Store_GetService serviceKey],
                          Inl (Wrap err ''failed to resolve healthcheck port for service'', servicePort))
                     | Inr resolvedServicePort \<Rightarrow>
                         if targetType = TargetTypeEnumInstance then
                           (if sp_NodePort resolvedServicePort = 0 then
                              ([Store_GetService serviceKey],
                               Inl (Error (''failed to find valid NodePort for service '' @ serviceName
                                             @ '' with port '' @ sp_Name resolvedServicePort),
                                    servicePort))
                            else
                              ([Store_GetService serviceKey],
                               Inr (Itoa (sint (sp_NodePort resolvedServicePort)))))
                         else
                           ([Store_GetService serviceKey],
                            Inr (ios_String (sp_TargetPort resolvedServicePort)))))"

definition buildTags :: "tg_Controller \<Rightarrow> Service \<Rightarrow> IngressBackend \<Rightarrow> annotations_Service \<Rightarrow> tags" where
  "buildTags controller service backend serviceAnnos =
     (gen_TagTGGroup (tg_nameTagGen controller) (svc_Namespace service) (svc_Name service)
        ++ gen_TagTG (tg_nameTagGen controller) (be_ServiceName backend) (ios_String (be_ServicePort backend)))
        ++ tags_LoadBalancer (Tags serviceAnnos)"

definition findExistingTGInstance :: "tg_Controller \<Rightarrow> string \<Rightarrow> elbv2_TargetGroup option io" where
  "findExistingTGInstance controller tgName =
     invoke (Cloud_GetTargetGroupByName tgName) (cloud_GetTargetGroupByName (tg_cloud controller) tgName)"

definition tg_Reconcile :: "tg_Controller \<Rightarrow> Service \<Rightarrow> IngressBackend \<Rightarrow> TargetGroup io" where
  "tg_Reconcile controller service backend =
     (let key = k8s_MetaNamespaceKey (tg_packages controller) service
      in bind (onError (Errorf ''failed to load serviceAnnotation due to '')
                 (invoke (Store_GetServiceAnnotations key)
                    (store_GetServiceAnnotations (tg_store controller) key)))
      (\<lambda>serviceAnnos.
        let protocol = StringValue (tga_BackendProtocol (TargetGroup serviceAnnos));
            targetType = StringValue (tga_TargetType (TargetGroup serviceAnnos))
        in case hc_Port (HealthCheck serviceAnnos) of
             None \<Rightarrow> failWith nilDereference
           | Some port \<Rightarrow>
               bind (onError (Errorf ''failed to resolve healthcheck port due to '')
                      (errorOnly (resolveServiceHealthCheckPort controller
                                    (svc_Namespace service) (svc_Name service) (Parse port) targetType)))
               (\<lambda>healthCheckPort.
                 let tgName = gen_NameTG (tg_nameTagGen controller) (svc_Namespace service)
                                (be_ServiceName backend) (ios_String (be_ServicePort backend))
                                targetType protocol
                 in bind (onError (Errorf ''failed to find existing targetGroup due to '')
                           (findExistingTGInstance controller tgName))
                    (\<lambda>found.
                      bind (case found of
                              None \<Rightarrow>
                                onError (Errorf ''failed to create targetGroup due to '')
                                  (newTGInstance controller tgName serviceAnnos healthCheckPort)
                            | Some tgInstance \<Rightarrow>
                                onError (Errorf ''failed to modify targetGroup due to '')
                                  (reconcileTGInstance controller tgInstance serviceAnnos healthCheckPort))
                      (\<lambda>tgInstance.
                        let tgArn = StringValue (tgi_TargetGroupArn tgInstance);
                            tgTags = buildTags controller service backend serviceAnnos;
                            attrs = tga_Attributes (TargetGroup serviceAnnos)
                        in bind (onError (Errorf ''failed to reconcile targetGroup tags due to '')
                                  (perform (TGTags_ReconcileELB tgArn tgTags)
                                     (tg_tagsController_ReconcileELB controller tgArn tgTags)))
                           (\<lambda>_.
                             bind (onError (Errorf ''failed to reconcile targetGroup attributes due to '')
                                    (perform (TGAttrs_Reconcile tgArn attrs)
                                       (tg_attrsController_Reconcile controller tgArn attrs)))
                             (\<lambda>_.
                               bind (onError (Errorf ''failed to reconcile targetGroup targets due to '')
                                      (invoke (Targets_Reconcile tgArn targetType service backend)
                                         (targetsController_Reconcile controller tgArn targetType service backend)))
                               (\<lambda>targets. pure \<lparr>tg_Arn = tgArn,
                                                 tg_TargetType = targetType,
                                                 tg_Targets = targets\<rparr>))))))))"

section \<open>Example collaborators\<close>

text \<open>A cloud in which no resource exists yet and every call succeeds, a store with one
  service, and the generator with the prefix \<open>nlb\<close>. The examples after the theorems start
  from these and change one method at a time.\<close>

definition exampleCloud :: CloudAPI where
  "exampleCloud =
     \<lparr>cloud_GetLoadBalancerByName = (\<lambda>name. Inr None),
      cloud_CreateLoadBalancerWithContext =
        (\<lambda>input. Inr [\<lparr>lbi_LoadBalancerArn = Some ''arn:lb/new'',
                        lbi_DNSName = Some ''new.elb.example'',
                        lbi_Scheme = clb_Scheme input,
                        lbi_IpAddressType = clb_IpAddressType input,
                        lbi_AvailabilityZones = []\<rparr>]),
      cloud_DeleteLoadBalancerByArn = (\<lambda>arn. None),
      cloud_SetIpAddressTypeWithContext = (\<lambda>input. None),
      cloud_SetSubnetsWithContext = (\<lambda>input. None),
      cloud_GetSubnetsByNameOrID = (\<lambda>names. Inr []),
      cloud_GetClusterSubnets = Inr [],
      cloud_GetTargetGroupByName = (\<lambda>name. Inr None),
      cloud_CreateTargetGroupWithContext = (\<lambda>input. Inr []),
      cloud_ModifyTargetGroupWithContext = (\<lambda>input. Inr [])\<rparr>"

definition examplePorts :: "ServicePort list" where
  "examplePorts =
     [\<lparr>sp_Name = ''http'', sp_Port = 80, sp_TargetPort = FromInt 8080, sp_NodePort = 31080\<rparr>]"

definition exampleService :: Service where
  "exampleService = \<lparr>svc_Namespace = ''default'', svc_Name = ''foo'', svc_Ports = examplePorts\<rparr>"

definition exampleKey :: NamespacedName where
  "exampleKey = \<lparr>key_Namespace = ''default'', key_Name = ''foo''\<rparr>"

definition exampleBackend :: IngressBackend where
  "exampleBackend = \<lparr>be_ServiceName = ''foo'', be_ServicePort = FromInt 80\<rparr>"

definition exampleAnnotations :: annotations_Service where
  "exampleAnnotations =
     \<lparr>LoadBalancer = \<lparr>lba_Scheme = Some ''internal'', lba_IPAddressType = Some ''ipv4'',
                       lba_Type = None, lba_Subnets = [''subnet-a'', ''subnet-b''],
                       lba_Attributes = []\<rparr>,
      HealthCheck = \<lparr>hc_Path = Some ''/healthz'', hc_Port = Some ''http'',
                      hc_Protocol = Some ''HTTP'', hc_IntervalSeconds = Some 10\<rparr>,
      TargetGroup = \<lparr>tga_BackendProtocol = Some ''TCP'', tga_TargetType = Some ''instance'',
                      tga_SuccessCodes = Some ''200'', tga_HealthyThresholdCount = Some 3,
                      tga_UnhealthyThresholdCount = Some 3, tga_Attributes = []\<rparr>,
      Tags = \<lparr>tags_LoadBalancer = Map.empty\<rparr>\<rparr>"

definition exampleStore :: Storer where
  "exampleStore =
     \<lparr>store_GetServiceAnnotations = (\<lambda>key. Inr exampleAnnotations),
      store_GetService = (\<lambda>key. Inr exampleService),
      store_GetConfig = \<lparr>RestrictScheme = False, InternetFacingServices = Map.empty\<rparr>\<rparr>"

definition exampleGenerator :: NameTagGenerator where
  "exampleGenerator =
     \<lparr>gen_NameLB = NameLB \<lparr>NLBNamePrefix = ''nlb''\<rparr>,
      gen_TagLB = (\<lambda>namespace serviceName. Map.empty),
      gen_NameTG = (\<lambda>namespace serviceName servicePort targetType protocol. ''nlb-0123456789abcdef012''),
      gen_TagTGGroup = (\<lambda>namespace serviceName. Map.empty),
      gen_TagTG = (\<lambda>serviceName servicePort. Map.empty)\<rparr>"

text \<open>A lookup of a service port by its name, for the examples.\<close>

definition exampleLookupServicePort :: "Service \<Rightarrow> IntOrString \<Rightarrow> error + ServicePort" where
  "exampleLookupServicePort service port =
     (case find (\<lambda>p. sp_Name p = ios_StrVal port) (svc_Ports service) of
        None \<Rightarrow> Inl (Error ''Unable to find port'')
      | Some p \<Rightarrow> Inr p)"

definition examplePackages :: Packages where
  "examplePackages =
     \<lparr>k8s_MetaNamespaceKey = (\<lambda>service. svc_Namespace service @ ''/'' @ svc_Name service),
      k8s_LookupServicePort = exampleLookupServicePort,
      healthcheck_DefaultPort = ''traffic-port'',
      aws_TagNameSubnetInternalELB = ''kubernetes.io/role/internal-elb'',
      aws_TagNameSubnetPublicELB = ''kubernetes.io/role/elb'',
      aws_TagNameCluster = ''kubernetes.io/cluster'',
      log_Prettify = (\<lambda>subnets. Join subnets '', '')\<rparr>"

definition exampleLB :: lb_Controller where
  "exampleLB =
     \<lparr>lb_cloud = exampleCloud,
      lb_store = exampleStore,
      lb_nameTagGen = exampleGenerator,
      lb_packages = examplePackages,
      tgGroupController_Reconcile = (\<lambda>service. Inr \<lparr>TGByBackend = []\<rparr>),
      tgGroupController_GC = (\<lambda>tgGroup. None),
      tgGroupController_Delete = (\<lambda>key. None),
      lsGroupController_Reconcile = (\<lambda>lbArn service tgGroup. None),
      lsGroupController_Delete = (\<lambda>lbArn. None),
      lb_tagsController_ReconcileELB = (\<lambda>arn tags. None),
      lb_attrsController_Reconcile = (\<lambda>arn attrs. None)\<rparr>"

definition exampleTG :: tg_Controller where
  "exampleTG =
     \<lparr>tg_cloud = exampleCloud,
      tg_store = exampleStore,
      tg_nameTagGen = exampleGenerator,
      tg_packages = examplePackages,
      tg_tagsController_ReconcileELB = (\<lambda>arn tags. None),
      tg_attrsController_Reconcile = (\<lambda>arn attrs. None),
      targetsController_Reconcile = (\<lambda>tgArn targetType service backend. Inr [])\<rparr>"

definition exampleInstance :: elbv2_LoadBalancer where
  "exampleInstance =
     \<lparr>lbi_LoadBalancerArn = Some ''arn:lb/old'',
      lbi_DNSName = Some ''old.elb.example'',
      lbi_Scheme = Some ''internal'',
      lbi_IpAddressType = Some ''ipv4'',
      lbi_AvailabilityZones = [\<lparr>az_ZoneName = Some ''us-east-1a'', az_SubnetId = Some ''subnet-a''\<rparr>,
                               \<lparr>az_ZoneName = Some ''us-east-1b'', az_SubnetId = Some ''subnet-b''\<rparr>]\<rparr>"

definition exampleConfig :: loadBalancerConfig where
  "exampleConfig =
     \<lparr>cfg_Name = ''nlb-default-foo-a4dd'',
      cfg_Tags = Map.empty,
      cfg_Type = Some ''network'',
      cfg_Scheme = Some ''internet-facing'',
      cfg_IpAddressType = Some ''ipv4'',
      cfg_Subnets = [''subnet-b'', ''subnet-a'']\<rparr>"


text \<open>A cloud in which the load balancer of the service exists, and one that moreover refuses
  to delete it.\<close>

definition existingCloud :: CloudAPI where
  "existingCloud = exampleCloud\<lparr>cloud_GetLoadBalancerByName := (\<lambda>name. Inr (Some exampleInstance))\<rparr>"

definition refusingCloud :: CloudAPI where
  "refusingCloud = existingCloud\<lparr>cloud_DeleteLoadBalancerByArn := (\<lambda>arn. Some (Error ''AccessDenied''))\<rparr>"

text \<open>A group with the target group \<open>A\<close> for the one backend of the service.\<close>

definition exampleGroup :: TargetGroupGroup where
  "exampleGroup =
     \<lparr>TGByBackend = [(exampleBackend,
                      \<lparr>tg_Arn = ''arn:tg/A'', tg_TargetType = ''instance'', tg_Targets = []\<rparr>)]\<rparr>"

text \<open>Three subnets that carry the tag of the internal scheme, two of them in the same
  availability zone, and a cloud that lists and resolves them.\<close>

definition exampleSubnets :: "Subnet list" where
  "exampleSubnets =
     [\<lparr>sn_SubnetId = Some ''subnet-c'', sn_AvailabilityZone = Some ''us-east-1a''\<rparr>,
      \<lparr>sn_SubnetId = Some ''subnet-a'', sn_AvailabilityZone = Some ''us-east-1b''\<rparr>,
      \<lparr>sn_SubnetId = Some ''subnet-b'', sn_AvailabilityZone = Some ''us-east-1a''\<rparr>]"

definition exampleTagged :: "(string \<times> Tag list) list" where
  "exampleTagged =
     [(''arn:aws:ec2:us-east-1:1:subnet/subnet-c'',
       [\<lparr>tag_Key = Some ''kubernetes.io/role/internal-elb'', tag_Value = Some ''1''\<rparr>]),
      (''arn:aws:ec2:us-east-1:1:subnet/subnet-a'',
       [\<lparr>tag_Key = Some ''kubernetes.io/cluster/test'', tag_Value = Some ''owned''\<rparr>,
        \<lparr>tag_Key = Some ''kubernetes.io/role/internal-elb'', tag_Value = Some ''1''\<rparr>]),
      (''arn:aws:ec2:us-east-1:1:subnet/subnet-b'',
       [\<lparr>tag_Key = Some ''kubernetes.io/role/internal-elb'', tag_Value = Some ''1''\<rparr>])]"

definition taggedCloud :: CloudAPI where
  "taggedCloud =
     exampleCloud\<lparr>cloud_GetClusterSubnets := Inr exampleTagged,
                  cloud_GetSubnetsByNameOrID := (\<lambda>names. Inr exampleSubnets)\<rparr>"

text \<open>The target group of the service as a run of the controller leaves it: its fields are
  those of the request that \<open>reconcileTGInstance\<close> sends for \<open>exampleAnnotations\<close>, with the
  health check port \<open>31080\<close> that the named port \<open>http\<close> resolves to for instance targets. In
  \<open>convergedCloud\<close> this target group exists, and a modification leaves it as it is.\<close>

definition liveTargetGroup :: elbv2_TargetGroup where
  "liveTargetGroup =
     \<lparr>tgi_TargetGroupArn = Some ''arn:tg/A'',
      tgi_HealthCheckPath = Some ''/healthz'',
      tgi_HealthCheckPort = Some ''31080'',
      tgi_HealthCheckProtocol = Some ''HTTP'',
      tgi_HealthCheckIntervalSeconds = Some 10,
      tgi_Matcher = Some \<lparr>HttpCode = Some ''200''\<rparr>,
      tgi_HealthyThresholdCount = Some 3,
      tgi_UnhealthyThresholdCount = Some 3\<rparr>"

definition convergedCloud :: CloudAPI where
  "convergedCloud =
     exampleCloud\<lparr>cloud_GetTargetGroupByName := (\<lambda>name. Inr (Some liveTargetGroup)),
                  cloud_ModifyTargetGroupWithContext := (\<lambda>input. Inr [liveTargetGroup])\<rparr>"

text \<open>Annotations with a TCP health check, and a target group with such a health check and
  no matcher.\<close>

definition tcpAnnotations :: annotations_Service where
  "tcpAnnotations =
     exampleAnnotations
       \<lparr>HealthCheck := \<lparr>hc_Path = None, hc_Port = Some ''traffic-port'',
                        hc_Protocol = Some ''TCP'', hc_IntervalSeconds = Some 10\<rparr>\<rparr>"

definition tcpTargetGroup :: elbv2_TargetGroup where
  "tcpTargetGroup =
     \<lparr>tgi_TargetGroupArn = Some ''arn:tg/T'',
      tgi_HealthCheckPath = None,
      tgi_HealthCheckPort = Some ''traffic-port'',
      tgi_HealthCheckProtocol = Some ''TCP'',
      tgi_HealthCheckIntervalSeconds = Some 10,
      tgi_Matcher = None,
      tgi_HealthyThresholdCount = Some 3,
      tgi_UnhealthyThresholdCount = Some 3\<rparr>"

text \<open>A live target group is in step with a modification request when every field that the
  request sets has the value of the request.\<close>

definition inStepWith :: "elbv2_TargetGroup \<Rightarrow> ModifyTargetGroupInput \<Rightarrow> bool" where
  "inStepWith instance input =
     (tgi_TargetGroupArn instance = mtg_TargetGroupArn input
      \<and> tgi_HealthCheckIntervalSeconds instance = mtg_HealthCheckIntervalSeconds input
      \<and> tgi_HealthCheckPort instance = mtg_HealthCheckPort input
      \<and> tgi_HealthCheckProtocol instance = mtg_HealthCheckProtocol input
      \<and> tgi_HealthyThresholdCount instance = mtg_HealthyThresholdCount input
      \<and> tgi_UnhealthyThresholdCount instance = mtg_UnhealthyThresholdCount input
      \<and> tgi_HealthCheckPath instance = mtg_HealthCheckPath input
      \<and> tgi_Matcher instance = mtg_Matcher input)"

section \<open>Properties of the name generator\<close>





lemma high_byte_not_alnum: "byteIn lo hi c \<Longrightarrow> 128 \<le> lo \<Longrightarrow> \<not> isAlnum c"
  by (auto simp: byteIn_def isAlnum_def Let_def)

lemma runeLen_tail:
  "c' \<in> set (take (runeLen (c # cs) - 1) cs) \<Longrightarrow> \<not> isAlnum c'"
proof -
  assume a: "c' \<in> set (take (runeLen (c # cs) - 1) cs)"
  show ?thesis
  proof (cases cs)
    case Nil
    with a show ?thesis by simp
  next
    case (Cons c1 cs1)
    note cs = this
    show ?thesis
    proof (cases cs1)
      case Nil
      with a cs show ?thesis
        by (auto simp: Let_def split: if_splits dest: high_byte_not_alnum)
    next
      case (Cons c2 cs2)
      note cs1 = this
      show ?thesis
      proof (cases cs2)
        case Nil
        with a cs cs1 show ?thesis
          by (auto simp: Let_def split: if_splits dest: high_byte_not_alnum)
      next
        case (Cons c3 cs3)
        with a cs cs1 show ?thesis
          by (auto simp: Let_def split: if_splits dest: high_byte_not_alnum)
      qed
    qed
  qed
qed

lemma replaceFrom_drop:
  "\<forall>c \<in> set (take skip s). \<not> isAlnum c \<Longrightarrow> replaceFrom skip [] s = filter isAlnum s"
proof (induction s arbitrary: skip)
  case Nil
  then show ?case by simp
next
  case (Cons c cs)
  show ?case
  proof (cases "0 < skip")
    case True
    then obtain k where k: "skip = Suc k" by (cases skip) auto
    with Cons.prems have "\<not> isAlnum c" and "\<forall>c \<in> set (take k cs). \<not> isAlnum c" by auto
    with Cons.IH [of k] k show ?thesis by simp
  next
    case False
    then have s0: "skip = 0" by simp
    show ?thesis
    proof (cases "isAlnum c")
      case True
      with s0 Cons.IH [of 0] show ?thesis by simp
    next
      case False
      have "\<forall>c' \<in> set (take (runeLen (c # cs) - 1) cs). \<not> isAlnum c'"
        using runeLen_tail by blast
      from Cons.IH [OF this] s0 False show ?thesis by simp
    qed
  qed
qed

lemma ReplaceAllString_drop: "ReplaceAllString s [] = filter isAlnum s"
  by (simp add: ReplaceAllString_def replaceFrom_drop)

lemma replaceFrom_hyphen_filter:
  "\<forall>c \<in> set (take skip s). \<not> isAlnum c \<Longrightarrow>
   filter isAlnum (replaceFrom skip ''-'' s) = filter isAlnum s"
proof (induction s arbitrary: skip)
  case Nil
  then show ?case by simp
next
  case (Cons c cs)
  show ?case
  proof (cases "0 < skip")
    case True
    then obtain k where k: "skip = Suc k" by (cases skip) auto
    with Cons.prems have "\<not> isAlnum c" and "\<forall>c \<in> set (take k cs). \<not> isAlnum c" by auto
    with Cons.IH [of k] k show ?thesis by simp
  next
    case False
    then have s0: "skip = 0" by simp
    show ?thesis
    proof (cases "isAlnum c")
      case True
      with s0 Cons.IH [of 0] show ?thesis by simp
    next
      case False
      have h: "\<not> isAlnum CHR ''-''" by (simp add: isAlnum_def)
      have "\<forall>c' \<in> set (take (runeLen (c # cs) - 1) cs). \<not> isAlnum c'"
        using runeLen_tail by blast
      from Cons.IH [OF this] s0 False h show ?thesis by simp
    qed
  qed
qed

lemma replaceFrom_hyphen_set:
  "set (replaceFrom skip ''-'' s) \<subseteq> {c. isAlnum c \<or> c = CHR ''-''}"
  by (induction skip "''-''" s rule: replaceFrom.induct) auto

lemma replaceFrom_ascii:
  "\<forall>c \<in> set s. (of_char c :: nat) < 128 \<Longrightarrow>
   replaceFrom 0 repl s = concat (map (\<lambda>c. if isAlnum c then [c] else repl) s)"
  by (induction s) (auto simp: Let_def)

lemma NameLB_eq:
  "NameLB gen namespace serviceName =
     take 26 (ReplaceAllString (NLBNamePrefix gen) ''-'' @ ''-''
                @ filter isAlnum namespace @ ''-'' @ filter isAlnum serviceName)
       @ ''-'' @ take 4 (hex_EncodeToString (md5_Sum (namespace @ serviceName)))"
  by (simp add: NameLB_def Let_def ReplaceAllString_drop)

text \<open>
  Claim C3, as the code has it. The name is the prefix with a hyphen for each character that is
  not a letter or digit, a hyphen, the letters and digits of the namespace, a hyphen, the
  letters and digits of the service name, all cut to 26 characters, and then a hyphen and the
  first four hexadecimal digits of the MD5 of namespace and service name: a hyphen separates
  the namespace from the service name. Replacing in the namespace and the service name keeps
  exactly their letters and digits; replacing in the prefix keeps its letters and digits, adds
  only hyphens, and on an ASCII prefix writes one hyphen for each other character.
\<close>

theorem NameLB_format:
  "NameLB gen namespace serviceName =
     take 26 (ReplaceAllString (NLBNamePrefix gen) ''-'' @ ''-''
                @ filter isAlnum namespace @ ''-'' @ filter isAlnum serviceName)
       @ ''-'' @ take 4 (hex_EncodeToString (md5_Sum (namespace @ serviceName)))
   \<and> ReplaceAllString namespace [] = filter isAlnum namespace
   \<and> ReplaceAllString serviceName [] = filter isAlnum serviceName
   \<and> filter isAlnum (ReplaceAllString (NLBNamePrefix gen) ''-'') = filter isAlnum (NLBNamePrefix gen)
   \<and> (\<forall>c \<in> set (ReplaceAllString (NLBNamePrefix gen) ''-''). isAlnum c \<or> c = CHR ''-'')
   \<and> ((\<forall>c \<in> set (NLBNamePrefix gen). (of_char c :: nat) < 128) \<longrightarrow>
        ReplaceAllString (NLBNamePrefix gen) ''-''
          = map (\<lambda>c. if isAlnum c then c else CHR ''-'') (NLBNamePrefix gen))"
proof -
  have a: "\<forall>c \<in> set (ReplaceAllString (NLBNamePrefix gen) ''-''). isAlnum c \<or> c = CHR ''-''"
    using replaceFrom_hyphen_set [of 0 "NLBNamePrefix gen"] by (auto simp: ReplaceAllString_def)
  have b: "(\<forall>c \<in> set (NLBNamePrefix gen). (of_char c :: nat) < 128) \<longrightarrow>
        ReplaceAllString (NLBNamePrefix gen) ''-''
          = map (\<lambda>c. if isAlnum c then c else CHR ''-'') (NLBNamePrefix gen)"
  proof
    assume h: "\<forall>c \<in> set (NLBNamePrefix gen). (of_char c :: nat) < 128"
    have "concat (map (\<lambda>c. if isAlnum c then [c] else ''-'') s)
            = map (\<lambda>c. if isAlnum c then c else CHR ''-'') s" for s
      by (induction s) auto
    with replaceFrom_ascii [OF h, of "''-''"] show "ReplaceAllString (NLBNamePrefix gen) ''-''
          = map (\<lambda>c. if isAlnum c then c else CHR ''-'') (NLBNamePrefix gen)"
      by (simp add: ReplaceAllString_def)
  qed
  have c: "filter isAlnum (ReplaceAllString (NLBNamePrefix gen) ''-'') = filter isAlnum (NLBNamePrefix gen)"
    by (simp add: ReplaceAllString_def replaceFrom_hyphen_filter)
  from a b c show ?thesis
    by (simp add: NameLB_eq ReplaceAllString_drop)
qed

text \<open>The prefix \<open>n_l.b\<close>, the namespace \<open>kube-system\<close> and the service \<open>web\<close>.\<close>

theorem NameLB_format_witness:
  "NameLB \<lparr>NLBNamePrefix = ''n_l.b''\<rparr> ''kube-system'' ''web''
     = ''n-l-b-kubesystem-web-'' @ take 4 (hex_EncodeToString (md5_Sum ''kube-systemweb''))
   \<and> ReplaceAllString ''n_l.b'' ''-'' = ''n-l-b''"
  using NameLB_format [of "\<lparr>NLBNamePrefix = ''n_l.b''\<rparr>" "''kube-system''" "''web''"]
  by (simp add: isAlnum_def)

text \<open>With the prefix \<open>nlb\<close>, the namespace \<open>default\<close> and the service \<open>foo\<close> the name starts
  \<open>nlb-default-foo\<close>, not \<open>nlb-defaultfoo\<close> as the wording without a separator has it.\<close>

theorem NameLB_separator_counterexample:
  "NameLB \<lparr>NLBNamePrefix = ''nlb''\<rparr> ''default'' ''foo'' \<noteq> spec_NameLB ''nlb'' ''default'' ''foo''"
  by (simp add: NameLB_def spec_NameLB_def ReplaceAllString_def isAlnum_def Let_def)

lemma md5_defaultfoo: "take 4 (hex_EncodeToString (md5_Sum ''defaultfoo'')) = ''a4dd''"
  by code_simp

lemma NameLB_example: "NameLB \<lparr>NLBNamePrefix = ''nlb''\<rparr> ''default'' ''foo'' = ''nlb-default-foo-a4dd''"
  using md5_defaultfoo by (simp add: NameLB_eq ReplaceAllString_def isAlnum_def)


section \<open>Calls in sequence\<close>

lemma bind_Inl: "bind (cs, Inl e) f = (cs, Inl e)"
  by (simp add: bind_def)

lemma bind_Inr: "bind (cs, Inr x) f = (cs @ fst (f x), snd (f x))"
  by (simp add: bind_def split: prod.splits)

lemma onError_Inl: "onError w (cs, Inl e) = (cs, Inl (w e))"
  by (simp add: onError_def)

lemma onError_Inr: "onError w (cs, Inr x) = (cs, Inr x)"
  by (simp add: onError_def)

lemma perform_None: "perform c None = ([c], Inr ())"
  by (simp add: perform_def)

lemma perform_Some: "perform c (Some e) = ([c], Inl e)"
  by (simp add: perform_def)

lemmas io_simps = bind_Inl bind_Inr onError_Inl onError_Inr perform_None perform_Some
  invoke_def pure_def failWith_def

lemma fst_bind: "fst (bind m f) = fst m @ (case snd m of Inl e \<Rightarrow> [] | Inr x \<Rightarrow> fst (f x))"
  by (cases m) (auto simp: bind_def split: sum.splits prod.splits)

lemma snd_bind: "snd (bind m f) = (case snd m of Inl e \<Rightarrow> Inl e | Inr x \<Rightarrow> snd (f x))"
  by (cases m) (auto simp: bind_def split: sum.splits prod.splits)

lemma fst_onError: "fst (onError w m) = fst m"
  by (cases m) (auto simp: onError_def split: sum.splits)

lemma snd_onError: "snd (onError w m) = (case snd m of Inl e \<Rightarrow> Inl (w e) | Inr x \<Rightarrow> Inr x)"
  by (cases m) (auto simp: onError_def split: sum.splits)

lemma fst_perform: "fst (perform c r) = [c]"
  by (simp add: perform_def)

lemma snd_perform: "snd (perform c r) = (case r of None \<Rightarrow> Inr () | Some e \<Rightarrow> Inl e)"
  by (simp add: perform_def)

lemma fst_errorOnly: "fst (errorOnly m) = fst m"
  by (cases m) (auto simp: errorOnly_def split: sum.splits)

lemmas io_proj = fst_bind snd_bind fst_onError snd_onError fst_perform snd_perform fst_errorOnly
  invoke_def pure_def failWith_def

section \<open>Properties of the load balancer controller\<close>

subsection \<open>The calls of each step\<close>

lemma fst_newLBInstance:
  "fst (newLBInstance controller lbConfig) =
     [Cloud_CreateLoadBalancerWithContext
        \<lparr>clb_Name = Some (cfg_Name lbConfig), clb_Type = cfg_Type lbConfig,
         clb_Scheme = cfg_Scheme lbConfig, clb_IpAddressType = cfg_IpAddressType lbConfig,
         clb_Subnets = cfg_Subnets lbConfig, clb_Tags = cfg_Tags lbConfig\<rparr>]"
  by (simp add: newLBInstance_def Let_def io_proj split: sum.splits list.splits)

lemma fst_recreateLBInstance:
  "fst (recreateLBInstance controller instance lbConfig) =
     Cloud_DeleteLoadBalancerByArn (StringValue (lbi_LoadBalancerArn instance))
       # (case cloud_DeleteLoadBalancerByArn (lb_cloud controller) (StringValue (lbi_LoadBalancerArn instance)) of
            None \<Rightarrow> fst (newLBInstance controller lbConfig)
          | Some err \<Rightarrow> [])"
  by (simp add: recreateLBInstance_def Let_def io_proj split: option.splits)

lemma fst_reconcileLBInstance:
  "fst (reconcileLBInstance controller instance lbConfig) =
     (if lbi_IpAddressType instance \<noteq> cfg_IpAddressType lbConfig
      then [Cloud_SetIpAddressTypeWithContext
              \<lparr>sip_LoadBalancerArn = lbi_LoadBalancerArn instance,
               sip_IpAddressType = cfg_IpAddressType lbConfig\<rparr>]
      else [])
     @ (if lbi_IpAddressType instance \<noteq> cfg_IpAddressType lbConfig
          \<and> cloud_SetIpAddressTypeWithContext (lb_cloud controller)
                \<lparr>sip_LoadBalancerArn = lbi_LoadBalancerArn instance,
                 sip_IpAddressType = cfg_IpAddressType lbConfig\<rparr> \<noteq> None
        then []
        else (if set (map StringValue (AsSubnets (lbi_AvailabilityZones instance))) \<noteq> set (cfg_Subnets lbConfig)
              then [Cloud_SetSubnetsWithContext
                      \<lparr>ssn_LoadBalancerArn = lbi_LoadBalancerArn instance,
                       ssn_Subnets = cfg_Subnets lbConfig\<rparr>]
              else [])
             @ (if set (map StringValue (AsSubnets (lbi_AvailabilityZones instance))) \<noteq> set (cfg_Subnets lbConfig)
                  \<and> cloud_SetSubnetsWithContext (lb_cloud controller)
                        \<lparr>ssn_LoadBalancerArn = lbi_LoadBalancerArn instance,
                         ssn_Subnets = cfg_Subnets lbConfig\<rparr> \<noteq> None
                then []
                else [LBTags_ReconcileELB (StringValue (lbi_LoadBalancerArn instance)) (cfg_Tags lbConfig)]))"
  by (auto simp: reconcileLBInstance_def Let_def DeepEqual_def io_proj split: option.splits sum.splits)

lemma ensureLBInstance_no_groupCall:
  "c \<in> set (fst (ensureLBInstance controller lbConfig)) \<Longrightarrow> \<not> groupCall c"
  by (auto simp: ensureLBInstance_def io_proj fst_newLBInstance fst_recreateLBInstance
        fst_reconcileLBInstance split: sum.splits option.splits if_splits)

lemma clusterSubnets_no_groupCall:
  "c \<in> set (fst (clusterSubnets controller scheme)) \<Longrightarrow> \<not> groupCall c"
  by (auto simp: clusterSubnets_def io_proj Let_def split: sum.splits option.splits if_splits)

lemma fst_resolveSubnets:
  "fst (resolveSubnets controller scheme in') =
     (if in' = [] then fst (clusterSubnets controller scheme)
      else if filter (\<lambda>subnet. \<not> HasPrefix subnet ''subnet-'') in' = [] then []
      else [Cloud_GetSubnetsByNameOrID (filter (\<lambda>subnet. \<not> HasPrefix subnet ''subnet-'') in')])"
  by (cases "clusterSubnets controller scheme")
     (auto simp: resolveSubnets_def Let_def split: sum.splits prod.splits)

lemma resolveSubnets_no_groupCall:
  "c \<in> set (fst (resolveSubnets controller scheme in')) \<Longrightarrow> \<not> groupCall c"
  by (auto simp: fst_resolveSubnets dest: clusterSubnets_no_groupCall split: if_splits)

lemma buildLBConfig_no_groupCall:
  "c \<in> set (fst (buildLBConfig controller service serviceAnnos)) \<Longrightarrow> \<not> groupCall c"
  by (auto simp: buildLBConfig_def Let_def io_proj dest: resolveSubnets_no_groupCall
        split: sum.splits)

lemma snd_recreateLBInstance_failed:
  "cloud_DeleteLoadBalancerByArn (lb_cloud controller) (StringValue (lbi_LoadBalancerArn instance)) = Some err
   \<Longrightarrow> snd (recreateLBInstance controller instance lbConfig) = Inl err"
  by (simp add: recreateLBInstance_def Let_def io_proj)

lemma reconcileLBInstance_no_delete_create:
  "c \<in> set (fst (reconcileLBInstance controller instance lbConfig)) \<Longrightarrow>
   (\<forall>arn. c \<noteq> Cloud_DeleteLoadBalancerByArn arn) \<and> (\<forall>input. c \<noteq> Cloud_CreateLoadBalancerWithContext input)"
  by (auto simp: fst_reconcileLBInstance split: if_splits)

lemma lb_Delete_eq:
  "lb_Delete controller key =
     (let lbName = gen_NameLB (lb_nameTagGen controller) (key_Namespace key) (key_Name key)
      in case cloud_GetLoadBalancerByName (lb_cloud controller) lbName of
           Inl err \<Rightarrow>
             ([Cloud_GetLoadBalancerByName lbName],
              Inl (Errorf ''failed to find existing LoadBalancer due to '' err))
         | Inr None \<Rightarrow> ([Cloud_GetLoadBalancerByName lbName], Inr ())
         | Inr (Some instance) \<Rightarrow>
             (let lbArn = StringValue (lbi_LoadBalancerArn instance)
              in case lsGroupController_Delete controller lbArn of
                   Some err \<Rightarrow>
                     ([Cloud_GetLoadBalancerByName lbName, LSGroup_Delete lbArn],
                      Inl (Errorf ''failed to delete listeners due to '' err))
                 | None \<Rightarrow>
                     (case tgGroupController_Delete controller key of
                        Some err \<Rightarrow>
                          ([Cloud_GetLoadBalancerByName lbName, LSGroup_Delete lbArn, TGGroup_Delete key],
                           Inl (Errorf ''failed to GC targetGroups due to '' err))
                      | None \<Rightarrow>
                          ([Cloud_GetLoadBalancerByName lbName, LSGroup_Delete lbArn, TGGroup_Delete key,
                            Cloud_DeleteLoadBalancerByArn lbArn],
                           case cloud_DeleteLoadBalancerByArn (lb_cloud controller) lbArn of
                             Some err \<Rightarrow> Inl err
                           | None \<Rightarrow> Inr ()))))"
  by (simp add: lb_Delete_def Let_def io_simps split: sum.splits option.splits)

subsection \<open>An existing load balancer: recreate or reconcile in place\<close>

text \<open>
  Claim C2, as the code has it. When a load balancer with the name of the configuration
  exists and its scheme differs from the desired one, \<open>ensureLBInstance\<close> looks it up and
  issues one \<open>DeleteLoadBalancerByArn\<close> for its ARN; when the delete succeeds, one
  \<open>CreateLoadBalancerWithContext\<close> with the desired configuration (the same name) follows,
  and when the delete fails the run ends there with the wrapped error and creates nothing.
  No other call is made, so none modifies the scheme. When the scheme matches, the calls are
  the lookup and those of \<open>reconcileLBInstance\<close>, none of which deletes or creates a load
  balancer.
\<close>

theorem ensureLBInstance_existing:
  assumes "cloud_GetLoadBalancerByName (lb_cloud controller) (cfg_Name lbConfig) = Inr (Some instance)"
  shows "(lbi_Scheme instance \<noteq> cfg_Scheme lbConfig \<longrightarrow>
            fst (ensureLBInstance controller lbConfig) =
              [Cloud_GetLoadBalancerByName (cfg_Name lbConfig),
               Cloud_DeleteLoadBalancerByArn (StringValue (lbi_LoadBalancerArn instance))]
              @ (case cloud_DeleteLoadBalancerByArn (lb_cloud controller)
                        (StringValue (lbi_LoadBalancerArn instance)) of
                   None \<Rightarrow>
                     [Cloud_CreateLoadBalancerWithContext
                        \<lparr>clb_Name = Some (cfg_Name lbConfig), clb_Type = cfg_Type lbConfig,
                         clb_Scheme = cfg_Scheme lbConfig,
                         clb_IpAddressType = cfg_IpAddressType lbConfig,
                         clb_Subnets = cfg_Subnets lbConfig, clb_Tags = cfg_Tags lbConfig\<rparr>]
                 | Some err \<Rightarrow> [])
            \<and> (\<forall>err. cloud_DeleteLoadBalancerByArn (lb_cloud controller)
                        (StringValue (lbi_LoadBalancerArn instance)) = Some err \<longrightarrow>
                  snd (ensureLBInstance controller lbConfig)
                    = Inl (Errorf ''failed to recreate LoadBalancer due to '' err)))
       \<and> (lbi_Scheme instance = cfg_Scheme lbConfig \<longrightarrow>
            fst (ensureLBInstance controller lbConfig) =
              Cloud_GetLoadBalancerByName (cfg_Name lbConfig)
                # fst (reconcileLBInstance controller instance lbConfig)
            \<and> (\<forall>c \<in> set (fst (ensureLBInstance controller lbConfig)).
                  (\<forall>arn. c \<noteq> Cloud_DeleteLoadBalancerByArn arn)
                  \<and> (\<forall>input. c \<noteq> Cloud_CreateLoadBalancerWithContext input)))"
proof (intro conjI impI allI)
  assume d: "lbi_Scheme instance \<noteq> cfg_Scheme lbConfig"
  from assms d show "fst (ensureLBInstance controller lbConfig) =
              [Cloud_GetLoadBalancerByName (cfg_Name lbConfig),
               Cloud_DeleteLoadBalancerByArn (StringValue (lbi_LoadBalancerArn instance))]
              @ (case cloud_DeleteLoadBalancerByArn (lb_cloud controller)
                        (StringValue (lbi_LoadBalancerArn instance)) of
                   None \<Rightarrow>
                     [Cloud_CreateLoadBalancerWithContext
                        \<lparr>clb_Name = Some (cfg_Name lbConfig), clb_Type = cfg_Type lbConfig,
                         clb_Scheme = cfg_Scheme lbConfig,
                         clb_IpAddressType = cfg_IpAddressType lbConfig,
                         clb_Subnets = cfg_Subnets lbConfig, clb_Tags = cfg_Tags lbConfig\<rparr>]
                 | Some err \<Rightarrow> [])"
    by (simp add: ensureLBInstance_def isLBInstanceNeedRecreation_def DeepEqual_def io_simps io_proj
          fst_recreateLBInstance fst_newLBInstance split: option.splits)
next
  fix err
  assume d: "lbi_Scheme instance \<noteq> cfg_Scheme lbConfig"
    and e: "cloud_DeleteLoadBalancerByArn (lb_cloud controller)
              (StringValue (lbi_LoadBalancerArn instance)) = Some err"
  from assms d snd_recreateLBInstance_failed [OF e, of lbConfig]
  show "snd (ensureLBInstance controller lbConfig)
          = Inl (Errorf ''failed to recreate LoadBalancer due to '' err)"
    by (simp add: ensureLBInstance_def isLBInstanceNeedRecreation_def DeepEqual_def io_simps io_proj)
next
  assume s: "lbi_Scheme instance = cfg_Scheme lbConfig"
  from assms s show t: "fst (ensureLBInstance controller lbConfig) =
              Cloud_GetLoadBalancerByName (cfg_Name lbConfig)
                # fst (reconcileLBInstance controller instance lbConfig)"
    by (simp add: ensureLBInstance_def isLBInstanceNeedRecreation_def DeepEqual_def io_simps io_proj
          split: sum.splits)
  show "\<forall>c \<in> set (fst (ensureLBInstance controller lbConfig)).
          (\<forall>arn. c \<noteq> Cloud_DeleteLoadBalancerByArn arn)
          \<and> (\<forall>input. c \<noteq> Cloud_CreateLoadBalancerWithContext input)"
    using reconcileLBInstance_no_delete_create [of _ controller "instance" lbConfig]
    by (auto simp: t)
qed

text \<open>The existing load balancer is internal. With the desired scheme \<open>internet-facing\<close> it is
  deleted and created anew; with the desired scheme \<open>internal\<close> and the same subnets in another
  order, only its tags are reconciled.\<close>

lemmas example_defs = exampleLB_def exampleCloud_def existingCloud_def refusingCloud_def
  exampleInstance_def exampleConfig_def exampleGenerator_def exampleStore_def
  exampleAnnotations_def exampleService_def examplePorts_def exampleKey_def exampleBackend_def
  examplePackages_def exampleGroup_def exampleTG_def

theorem ensureLBInstance_existing_witness:
  "fst (ensureLBInstance (exampleLB\<lparr>lb_cloud := existingCloud\<rparr>) exampleConfig) =
     [Cloud_GetLoadBalancerByName ''nlb-default-foo-a4dd'',
      Cloud_DeleteLoadBalancerByArn ''arn:lb/old'',
      Cloud_CreateLoadBalancerWithContext
        \<lparr>clb_Name = Some ''nlb-default-foo-a4dd'', clb_Type = Some ''network'',
         clb_Scheme = Some ''internet-facing'', clb_IpAddressType = Some ''ipv4'',
         clb_Subnets = [''subnet-b'', ''subnet-a''], clb_Tags = Map.empty\<rparr>]
   \<and> fst (ensureLBInstance (exampleLB\<lparr>lb_cloud := existingCloud\<rparr>)
            (exampleConfig\<lparr>cfg_Scheme := Some ''internal''\<rparr>)) =
     [Cloud_GetLoadBalancerByName ''nlb-default-foo-a4dd'',
      LBTags_ReconcileELB ''arn:lb/old'' Map.empty]"
  using ensureLBInstance_existing
          [of "exampleLB\<lparr>lb_cloud := existingCloud\<rparr>" exampleConfig exampleInstance]
        ensureLBInstance_existing
          [of "exampleLB\<lparr>lb_cloud := existingCloud\<rparr>"
              "exampleConfig\<lparr>cfg_Scheme := Some ''internal''\<rparr>" exampleInstance]
  by (simp add: example_defs fst_reconcileLBInstance StringValue_def AsSubnets_def insert_commute)

text \<open>The wording "exactly one delete followed by exactly one create" fails when the cloud
  refuses the delete: the existing load balancer is internal, the desired scheme is
  \<open>internet-facing\<close>, and the run ends after the delete, without a create.\<close>

theorem ensureLBInstance_delete_refused_counterexample:
  "cloud_GetLoadBalancerByName (lb_cloud (exampleLB\<lparr>lb_cloud := refusingCloud\<rparr>))
       (cfg_Name exampleConfig) = Inr (Some exampleInstance)
   \<and> lbi_Scheme exampleInstance \<noteq> cfg_Scheme exampleConfig
   \<and> ensureLBInstance (exampleLB\<lparr>lb_cloud := refusingCloud\<rparr>) exampleConfig =
       ([Cloud_GetLoadBalancerByName ''nlb-default-foo-a4dd'',
         Cloud_DeleteLoadBalancerByArn ''arn:lb/old''],
        Inl (Error ''failed to recreate LoadBalancer due to AccessDenied''))"
  by (simp add: example_defs ensureLBInstance_def recreateLBInstance_def
        isLBInstanceNeedRecreation_def DeepEqual_def StringValue_def io_simps)

subsection \<open>\<^verbatim>\<open>Delete\<close>\<close>

text \<open>
  Claim C9. \<open>Delete\<close> looks the load balancer up by the name that the generator gives for the
  key; a failure of the lookup is returned, wrapped. When there is no load balancer, it
  returns no error and has made no other call. When there is one,
  it deletes the listeners, then the target groups of the key, then the load balancer, in this
  order; the first step that fails ends the run, and its error is returned (wrapped, for the
  listeners and the target groups).
\<close>

theorem lb_Delete_steps:
  assumes "lbName = gen_NameLB (lb_nameTagGen controller) (key_Namespace key) (key_Name key)"
  shows "(\<forall>err. cloud_GetLoadBalancerByName (lb_cloud controller) lbName = Inl err \<longrightarrow>
            lb_Delete controller key =
              ([Cloud_GetLoadBalancerByName lbName],
               Inl (Errorf ''failed to find existing LoadBalancer due to '' err)))
       \<and> (cloud_GetLoadBalancerByName (lb_cloud controller) lbName = Inr None \<longrightarrow>
            lb_Delete controller key = ([Cloud_GetLoadBalancerByName lbName], Inr ()))
       \<and> (\<forall>instance lbArn.
            cloud_GetLoadBalancerByName (lb_cloud controller) lbName = Inr (Some instance)
            \<and> lbArn = StringValue (lbi_LoadBalancerArn instance) \<longrightarrow>
            (\<forall>err. lsGroupController_Delete controller lbArn = Some err \<longrightarrow>
               lb_Delete controller key =
                 ([Cloud_GetLoadBalancerByName lbName, LSGroup_Delete lbArn],
                  Inl (Errorf ''failed to delete listeners due to '' err)))
            \<and> (\<forall>err. lsGroupController_Delete controller lbArn = None
                    \<and> tgGroupController_Delete controller key = Some err \<longrightarrow>
               lb_Delete controller key =
                 ([Cloud_GetLoadBalancerByName lbName, LSGroup_Delete lbArn, TGGroup_Delete key],
                  Inl (Errorf ''failed to GC targetGroups due to '' err)))
            \<and> (\<forall>err. lsGroupController_Delete controller lbArn = None
                    \<and> tgGroupController_Delete controller key = None
                    \<and> cloud_DeleteLoadBalancerByArn (lb_cloud controller) lbArn = Some err \<longrightarrow>
               lb_Delete controller key =
                 ([Cloud_GetLoadBalancerByName lbName, LSGroup_Delete lbArn, TGGroup_Delete key,
                   Cloud_DeleteLoadBalancerByArn lbArn],
                  Inl err))
            \<and> (lsGroupController_Delete controller lbArn = None
                    \<and> tgGroupController_Delete controller key = None
                    \<and> cloud_DeleteLoadBalancerByArn (lb_cloud controller) lbArn = None \<longrightarrow>
               lb_Delete controller key =
                 ([Cloud_GetLoadBalancerByName lbName, LSGroup_Delete lbArn, TGGroup_Delete key,
                   Cloud_DeleteLoadBalancerByArn lbArn],
                  Inr ())))"
  using assms by (simp add: lb_Delete_eq Let_def)

text \<open>No load balancer; a load balancer and every step succeeding; a load balancer and the
  deletion of the target groups failing.\<close>

theorem lb_Delete_steps_witness:
  "lb_Delete exampleLB exampleKey = ([Cloud_GetLoadBalancerByName ''nlb-default-foo-a4dd''], Inr ())
   \<and> lb_Delete (exampleLB\<lparr>lb_cloud := existingCloud\<rparr>) exampleKey =
       ([Cloud_GetLoadBalancerByName ''nlb-default-foo-a4dd'', LSGroup_Delete ''arn:lb/old'',
         TGGroup_Delete exampleKey, Cloud_DeleteLoadBalancerByArn ''arn:lb/old''], Inr ())
   \<and> lb_Delete (exampleLB\<lparr>lb_cloud := existingCloud,
                          tgGroupController_Delete := (\<lambda>key. Some (Error ''Throttling''))\<rparr>) exampleKey =
       ([Cloud_GetLoadBalancerByName ''nlb-default-foo-a4dd'', LSGroup_Delete ''arn:lb/old'',
         TGGroup_Delete exampleKey], Inl (Error ''failed to GC targetGroups due to Throttling''))"
  using lb_Delete_steps [of "''nlb-default-foo-a4dd''" exampleLB exampleKey]
        lb_Delete_steps [of "''nlb-default-foo-a4dd''" "exampleLB\<lparr>lb_cloud := existingCloud\<rparr>" exampleKey]
        lb_Delete_steps [of "''nlb-default-foo-a4dd''"
          "exampleLB\<lparr>lb_cloud := existingCloud,
                     tgGroupController_Delete := (\<lambda>key. Some (Error ''Throttling''))\<rparr>" exampleKey]
  by (simp add: example_defs NameLB_example StringValue_def)

subsection \<open>\<^verbatim>\<open>Reconcile\<close>: garbage collection comes last\<close>

lemma lb_Reconcile_eq:
  "lb_Reconcile controller service =
     (let key = k8s_MetaNamespaceKey (lb_packages controller) service
      in case store_GetServiceAnnotations (lb_store controller) key of
           Inl err \<Rightarrow> ([Store_GetServiceAnnotations key], Inl err)
         | Inr serviceAnnos \<Rightarrow>
             (case buildLBConfig controller service serviceAnnos of
                (cs1, Inl err) \<Rightarrow>
                  (Store_GetServiceAnnotations key # cs1,
                   Inl (Errorf ''failed to build LoadBalancer configuration due to '' err))
              | (cs1, Inr lbConfig) \<Rightarrow>
                  (case validateLBConfig controller service lbConfig of
                     Some err \<Rightarrow> (Store_GetServiceAnnotations key # cs1, Inl err)
                   | None \<Rightarrow>
                       (case ensureLBInstance controller lbConfig of
                          (cs2, Inl err) \<Rightarrow> (Store_GetServiceAnnotations key # cs1 @ cs2, Inl err)
                        | (cs2, Inr instance) \<Rightarrow>
                            (let lbArn = StringValue (lbi_LoadBalancerArn instance);
                                 attrs = lba_Attributes (LoadBalancer serviceAnnos);
                                 pre = Store_GetServiceAnnotations key # cs1 @ cs2 @ [LBAttrs_Reconcile lbArn attrs]
                             in case lb_attrsController_Reconcile controller lbArn attrs of
                                  Some err \<Rightarrow>
                                    (pre, Inl (Errorf (''failed to reconcile attributes of '' @ lbArn @ '' due to '') err))
                                | None \<Rightarrow>
                                    (case tgGroupController_Reconcile controller service of
                                       Inl err \<Rightarrow>
                                         (pre @ [TGGroup_Reconcile service],
                                          Inl (Errorf ''failed to reconcile targetGroups due to '' err))
                                     | Inr tgGroup \<Rightarrow>
                                         (case lsGroupController_Reconcile controller lbArn service tgGroup of
                                            Some err \<Rightarrow>
                                              (pre @ [TGGroup_Reconcile service,
                                                      LSGroup_Reconcile lbArn service tgGroup],
                                               Inl (Errorf ''failed to reconcile listeners due to '' err))
                                          | None \<Rightarrow>
                                              (pre @ [TGGroup_Reconcile service,
                                                      LSGroup_Reconcile lbArn service tgGroup,
                                                      TGGroup_GC tgGroup],
                                               case tgGroupController_GC controller tgGroup of
                                                 Some err \<Rightarrow> Inl (Errorf ''failed to GC targetGroups due to '' err)
                                               | None \<Rightarrow> Inr \<lparr>Arn = lbArn,
                                                               DNSName = StringValue (lbi_DNSName instance)\<rparr>))))))))"
  by (simp add: lb_Reconcile_def Let_def io_simps split: sum.splits option.splits prod.splits)

lemma dropWhile_to_groupCall:
  "\<forall>c \<in> set pre. \<not> groupCall c \<Longrightarrow> groupCall x \<Longrightarrow>
   dropWhile (\<lambda>c. \<not> groupCall c) (pre @ x # xs) = x # xs"
  by (simp add: dropWhile_append)

lemma spec_GC_iff:
  "arn \<in> set (spec_GC owned tgGroup) \<longleftrightarrow>
     arn \<in> set owned \<and> (\<forall>(backend, targetGroup) \<in> set (TGByBackend tgGroup). tg_Arn targetGroup \<noteq> arn)"
  by (auto simp: spec_GC_def)

lemma ensureLBInstance_deletes_none:
  "c \<in> set (fst (ensureLBInstance controller lbConfig)) \<Longrightarrow> spec_deletedBy owned c = []"
  by (auto simp: ensureLBInstance_def io_proj fst_newLBInstance fst_recreateLBInstance
        fst_reconcileLBInstance split: sum.splits option.splits if_splits)

lemma clusterSubnets_deletes_none:
  "c \<in> set (fst (clusterSubnets controller scheme)) \<Longrightarrow> spec_deletedBy owned c = []"
  by (auto simp: clusterSubnets_def io_proj Let_def split: sum.splits option.splits if_splits)

lemma buildLBConfig_deletes_none:
  "c \<in> set (fst (buildLBConfig controller service serviceAnnos)) \<Longrightarrow> spec_deletedBy owned c = []"
  by (auto simp: buildLBConfig_def Let_def io_proj fst_resolveSubnets
        dest: clusterSubnets_deletes_none split: sum.splits if_splits)

lemma spec_deleted_none:
  "\<forall>c \<in> set calls. spec_deletedBy owned c = [] \<Longrightarrow> spec_deleted owned calls = []"
  by (induction calls) (auto simp: spec_deleted_def)

lemma spec_deleted_append:
  "spec_deleted owned (xs @ ys) = spec_deleted owned xs @ spec_deleted owned ys"
  by (simp add: spec_deleted_def)

lemma lb_Reconcile_shape:
  "\<exists>pre tail.
     fst (lb_Reconcile controller service) = pre @ tail
     \<and> (\<forall>c \<in> set pre. \<not> groupCall c \<and> spec_deletedBy owned c = [])
     \<and> (tail = [] \<and> (\<forall>lb. snd (lb_Reconcile controller service) \<noteq> Inr lb)
        \<or> tail = [TGGroup_Reconcile service]
          \<and> (\<exists>err. tgGroupController_Reconcile controller service = Inl err)
          \<and> (\<forall>lb. snd (lb_Reconcile controller service) \<noteq> Inr lb)
        \<or> (\<exists>lbArn tgGroup.
             tgGroupController_Reconcile controller service = Inr tgGroup
             \<and> (tail = [TGGroup_Reconcile service, LSGroup_Reconcile lbArn service tgGroup]
                 \<and> lsGroupController_Reconcile controller lbArn service tgGroup \<noteq> None
                 \<and> (\<forall>lb. snd (lb_Reconcile controller service) \<noteq> Inr lb)
               \<or> tail = [TGGroup_Reconcile service, LSGroup_Reconcile lbArn service tgGroup,
                          TGGroup_GC tgGroup]
                 \<and> lsGroupController_Reconcile controller lbArn service tgGroup = None
                 \<and> (\<forall>lb. snd (lb_Reconcile controller service) = Inr lb \<longrightarrow>
                       Arn lb = lbArn \<and> tgGroupController_GC controller tgGroup = None))))"
proof -
  define key where "key = k8s_MetaNamespaceKey (lb_packages controller) service"
  show ?thesis
  proof (cases "store_GetServiceAnnotations (lb_store controller) key")
    case (Inl err)
    then have "lb_Reconcile controller service = ([Store_GetServiceAnnotations key], Inl err)"
      by (simp add: lb_Reconcile_eq Let_def key_def)
    then show ?thesis
      by (intro exI [of _ "[Store_GetServiceAnnotations key]"] exI [of _ "[]"]) simp
  next
    case annos: (Inr serviceAnnos)
    obtain cs1 r1 where b: "buildLBConfig controller service serviceAnnos = (cs1, r1)"
      by (cases "buildLBConfig controller service serviceAnnos")
    have n1: "\<forall>c \<in> set cs1. \<not> groupCall c \<and> spec_deletedBy owned c = []"
      using buildLBConfig_no_groupCall [of _ controller service serviceAnnos]
        buildLBConfig_deletes_none [of _ controller service serviceAnnos owned] b by auto
    show ?thesis
    proof (cases r1)
      case (Inl err)
      with annos b have "lb_Reconcile controller service =
          (Store_GetServiceAnnotations key # cs1,
           Inl (Errorf ''failed to build LoadBalancer configuration due to '' err))"
        by (simp add: lb_Reconcile_eq Let_def key_def)
      with n1 show ?thesis
        by (intro exI [of _ "Store_GetServiceAnnotations key # cs1"] exI [of _ "[]"]) simp
    next
      case cfg: (Inr lbConfig)
      show ?thesis
      proof (cases "validateLBConfig controller service lbConfig")
        case (Some err)
        with annos b cfg have "lb_Reconcile controller service =
            (Store_GetServiceAnnotations key # cs1, Inl err)"
          by (simp add: lb_Reconcile_eq Let_def key_def)
        with n1 show ?thesis
          by (intro exI [of _ "Store_GetServiceAnnotations key # cs1"] exI [of _ "[]"]) simp
      next
        case valid: None
        obtain cs2 r2 where e: "ensureLBInstance controller lbConfig = (cs2, r2)"
          by (cases "ensureLBInstance controller lbConfig")
        have n2: "\<forall>c \<in> set cs2. \<not> groupCall c \<and> spec_deletedBy owned c = []"
          using ensureLBInstance_no_groupCall [of _ controller lbConfig]
            ensureLBInstance_deletes_none [of _ controller lbConfig owned] e by auto
        show ?thesis
        proof (cases r2)
          case (Inl err)
          with annos b cfg valid e have "lb_Reconcile controller service =
              (Store_GetServiceAnnotations key # cs1 @ cs2, Inl err)"
            by (simp add: lb_Reconcile_eq Let_def key_def)
          with n1 n2 show ?thesis
            by (intro exI [of _ "Store_GetServiceAnnotations key # cs1 @ cs2"] exI [of _ "[]"]) auto
        next
          case inst: (Inr found)
          define lbArn where "lbArn = StringValue (lbi_LoadBalancerArn found)"
          define attrs where "attrs = lba_Attributes (LoadBalancer serviceAnnos)"
          define pre where "pre = Store_GetServiceAnnotations key # cs1 @ cs2 @ [LBAttrs_Reconcile lbArn attrs]"
          have np: "\<forall>c \<in> set pre. \<not> groupCall c \<and> spec_deletedBy owned c = []"
            using n1 n2 by (auto simp: pre_def)
          show ?thesis
          proof (cases "lb_attrsController_Reconcile controller lbArn attrs")
            case (Some err)
            with annos b cfg valid e inst have "lb_Reconcile controller service =
                (pre, Inl (Errorf (''failed to reconcile attributes of '' @ lbArn @ '' due to '') err))"
              by (simp add: lb_Reconcile_eq Let_def key_def lbArn_def attrs_def pre_def)
            with np show ?thesis
              by (intro exI [of _ pre] exI [of _ "[]"]) simp
          next
            case at: None
            show ?thesis
            proof (cases "tgGroupController_Reconcile controller service")
              case (Inl err)
              with annos b cfg valid e inst at
              have "lb_Reconcile controller service
                      = (pre @ [TGGroup_Reconcile service],
                         Inl (Errorf ''failed to reconcile targetGroups due to '' err))"
                by (simp add: lb_Reconcile_eq Let_def key_def lbArn_def attrs_def pre_def)
              with Inl np show ?thesis
                by (intro exI [of _ pre] exI [of _ "[TGGroup_Reconcile service]"]) simp
            next
              case tg: (Inr tgGroup)
              show ?thesis
              proof (cases "lsGroupController_Reconcile controller lbArn service tgGroup")
                case (Some err)
                with annos b cfg valid e inst at tg
                have "lb_Reconcile controller service
                        = (pre @ [TGGroup_Reconcile service, LSGroup_Reconcile lbArn service tgGroup],
                           Inl (Errorf ''failed to reconcile listeners due to '' err))"
                  by (simp add: lb_Reconcile_eq Let_def key_def lbArn_def attrs_def pre_def)
                with Some tg np show ?thesis
                  by (intro exI [of _ pre]
                        exI [of _ "[TGGroup_Reconcile service, LSGroup_Reconcile lbArn service tgGroup]"])
                     auto
              next
                case ls: None
                with annos b cfg valid e inst at tg
                have "lb_Reconcile controller service
                        = (pre @ [TGGroup_Reconcile service, LSGroup_Reconcile lbArn service tgGroup,
                                  TGGroup_GC tgGroup],
                           case tgGroupController_GC controller tgGroup of
                             Some err \<Rightarrow> Inl (Errorf ''failed to GC targetGroups due to '' err)
                           | None \<Rightarrow> Inr \<lparr>Arn = lbArn, DNSName = StringValue (lbi_DNSName found)\<rparr>)"
                  by (simp add: lb_Reconcile_eq Let_def key_def lbArn_def attrs_def pre_def
                        split: option.splits)
                with ls tg np show ?thesis
                  by (intro exI [of _ pre]
                        exI [of _ "[TGGroup_Reconcile service, LSGroup_Reconcile lbArn service tgGroup,
                                    TGGroup_GC tgGroup]"])
                     (auto split: option.splits)
              qed
            qed
          qed
        qed
      qed
    qed
  qed
qed


lemma not_groupCall_not_GC:
  "\<forall>c \<in> set pre. \<not> groupCall c \<Longrightarrow> TGGroup_GC g \<notin> set pre"
  by auto

lemma lb_Reconcile_cases:
  "(dropWhile (\<lambda>c. \<not> groupCall c) (fst (lb_Reconcile controller service)) = []
      \<and> spec_deleted owned (fst (lb_Reconcile controller service)) = []
      \<and> (\<forall>g. TGGroup_GC g \<notin> set (fst (lb_Reconcile controller service)))
      \<and> (\<forall>lb. snd (lb_Reconcile controller service) \<noteq> Inr lb))
   \<or> (dropWhile (\<lambda>c. \<not> groupCall c) (fst (lb_Reconcile controller service))
         = [TGGroup_Reconcile service]
      \<and> spec_deleted owned (fst (lb_Reconcile controller service)) = []
      \<and> (\<forall>g. TGGroup_GC g \<notin> set (fst (lb_Reconcile controller service)))
      \<and> (\<forall>lb. snd (lb_Reconcile controller service) \<noteq> Inr lb))
   \<or> (\<exists>lbArn tgGroup.
         dropWhile (\<lambda>c. \<not> groupCall c) (fst (lb_Reconcile controller service))
           = [TGGroup_Reconcile service, LSGroup_Reconcile lbArn service tgGroup]
      \<and> spec_deleted owned (fst (lb_Reconcile controller service)) = []
      \<and> (\<forall>g. TGGroup_GC g \<notin> set (fst (lb_Reconcile controller service)))
      \<and> (\<forall>lb. snd (lb_Reconcile controller service) \<noteq> Inr lb))
   \<or> (\<exists>lbArn tgGroup.
         dropWhile (\<lambda>c. \<not> groupCall c) (fst (lb_Reconcile controller service))
           = [TGGroup_Reconcile service, LSGroup_Reconcile lbArn service tgGroup,
              TGGroup_GC tgGroup]
      \<and> tgGroupController_Reconcile controller service = Inr tgGroup
      \<and> lsGroupController_Reconcile controller lbArn service tgGroup = None
      \<and> last (fst (lb_Reconcile controller service)) = TGGroup_GC tgGroup
      \<and> spec_deleted owned (butlast (fst (lb_Reconcile controller service))) = []
      \<and> spec_deleted owned (fst (lb_Reconcile controller service)) = spec_GC owned tgGroup
      \<and> (\<forall>g. TGGroup_GC g \<in> set (fst (lb_Reconcile controller service)) \<longrightarrow> g = tgGroup)
      \<and> (\<forall>lb. snd (lb_Reconcile controller service) = Inr lb \<longrightarrow>
            Arn lb = lbArn \<and> tgGroupController_GC controller tgGroup = None))"
proof -
  obtain pre tail where run: "fst (lb_Reconcile controller service) = pre @ tail"
    and pre: "\<forall>c \<in> set pre. \<not> groupCall c \<and> spec_deletedBy owned c = []"
    and tail: "tail = [] \<and> (\<forall>lb. snd (lb_Reconcile controller service) \<noteq> Inr lb)
        \<or> tail = [TGGroup_Reconcile service]
          \<and> (\<exists>err. tgGroupController_Reconcile controller service = Inl err)
          \<and> (\<forall>lb. snd (lb_Reconcile controller service) \<noteq> Inr lb)
        \<or> (\<exists>lbArn tgGroup.
             tgGroupController_Reconcile controller service = Inr tgGroup
             \<and> (tail = [TGGroup_Reconcile service, LSGroup_Reconcile lbArn service tgGroup]
                 \<and> lsGroupController_Reconcile controller lbArn service tgGroup \<noteq> None
                 \<and> (\<forall>lb. snd (lb_Reconcile controller service) \<noteq> Inr lb)
               \<or> tail = [TGGroup_Reconcile service, LSGroup_Reconcile lbArn service tgGroup,
                          TGGroup_GC tgGroup]
                 \<and> lsGroupController_Reconcile controller lbArn service tgGroup = None
                 \<and> (\<forall>lb. snd (lb_Reconcile controller service) = Inr lb \<longrightarrow>
                       Arn lb = lbArn \<and> tgGroupController_GC controller tgGroup = None)))"
    using lb_Reconcile_shape [of controller service owned] by blast
  have ng: "\<forall>c \<in> set pre. \<not> groupCall c" using pre by simp
  have d0: "spec_deleted owned pre = []" using pre by (simp add: spec_deleted_none)
  have g0: "\<And>g. TGGroup_GC g \<notin> set pre" using ng by (rule not_groupCall_not_GC)
  from tail consider
      (none) "tail = []" "\<forall>lb. snd (lb_Reconcile controller service) \<noteq> Inr lb"
    | (tg) "tail = [TGGroup_Reconcile service]" "\<forall>lb. snd (lb_Reconcile controller service) \<noteq> Inr lb"
    | (ls) lbArn tgGroup where
        "tail = [TGGroup_Reconcile service, LSGroup_Reconcile lbArn service tgGroup]"
        "\<forall>lb. snd (lb_Reconcile controller service) \<noteq> Inr lb"
    | (gc) lbArn tgGroup where
        "tail = [TGGroup_Reconcile service, LSGroup_Reconcile lbArn service tgGroup, TGGroup_GC tgGroup]"
        "tgGroupController_Reconcile controller service = Inr tgGroup"
        "lsGroupController_Reconcile controller lbArn service tgGroup = None"
        "\<forall>lb. snd (lb_Reconcile controller service) = Inr lb \<longrightarrow>
            Arn lb = lbArn \<and> tgGroupController_GC controller tgGroup = None"
    by blast
  then show ?thesis
  proof cases
    case none
    with run ng d0 g0 show ?thesis by simp
  next
    case tg
    have "dropWhile (\<lambda>c. \<not> groupCall c) (pre @ [TGGroup_Reconcile service]) = [TGGroup_Reconcile service]"
      using ng by (simp add: dropWhile_to_groupCall)
    moreover have "spec_deleted owned (pre @ [TGGroup_Reconcile service]) = []"
      using d0 by (simp add: spec_deleted_append) (simp add: spec_deleted_def)
    ultimately show ?thesis using run tg g0 by simp
  next
    case ls
    have "dropWhile (\<lambda>c. \<not> groupCall c) (pre @ [TGGroup_Reconcile service, LSGroup_Reconcile lbArn service tgGroup])
            = [TGGroup_Reconcile service, LSGroup_Reconcile lbArn service tgGroup]"
      using ng by (simp add: dropWhile_to_groupCall)
    moreover have "spec_deleted owned (pre @ [TGGroup_Reconcile service, LSGroup_Reconcile lbArn service tgGroup]) = []"
      using d0 by (simp add: spec_deleted_append) (simp add: spec_deleted_def)
    ultimately have "\<exists>lbArn tgGroup.
         dropWhile (\<lambda>c. \<not> groupCall c) (fst (lb_Reconcile controller service))
           = [TGGroup_Reconcile service, LSGroup_Reconcile lbArn service tgGroup]
      \<and> spec_deleted owned (fst (lb_Reconcile controller service)) = []
      \<and> (\<forall>g. TGGroup_GC g \<notin> set (fst (lb_Reconcile controller service)))
      \<and> (\<forall>lb. snd (lb_Reconcile controller service) \<noteq> Inr lb)"
      using run ls g0 by auto
    then show ?thesis by blast
  next
    case gc
    let ?tail = "[TGGroup_Reconcile service, LSGroup_Reconcile lbArn service tgGroup, TGGroup_GC tgGroup]"
    have a: "dropWhile (\<lambda>c. \<not> groupCall c) (pre @ ?tail) = ?tail"
      using ng by (simp add: dropWhile_to_groupCall)
    have b: "spec_deleted owned (pre @ ?tail) = spec_GC owned tgGroup"
      using d0 by (simp add: spec_deleted_append) (simp add: spec_deleted_def)
    have c: "butlast (pre @ ?tail) = pre @ [TGGroup_Reconcile service, LSGroup_Reconcile lbArn service tgGroup]"
      by (simp add: butlast_append)
    have d: "spec_deleted owned (butlast (pre @ ?tail)) = []"
      unfolding c using d0 by (simp add: spec_deleted_append) (simp add: spec_deleted_def)
    have e: "last (pre @ ?tail) = TGGroup_GC tgGroup" by simp
    have f: "\<forall>g. TGGroup_GC g \<in> set (pre @ ?tail) \<longrightarrow> g = tgGroup"
      using g0 by auto
    have "\<exists>lbArn tgGroup.
         dropWhile (\<lambda>c. \<not> groupCall c) (fst (lb_Reconcile controller service))
           = [TGGroup_Reconcile service, LSGroup_Reconcile lbArn service tgGroup,
              TGGroup_GC tgGroup]
      \<and> tgGroupController_Reconcile controller service = Inr tgGroup
      \<and> lsGroupController_Reconcile controller lbArn service tgGroup = None
      \<and> last (fst (lb_Reconcile controller service)) = TGGroup_GC tgGroup
      \<and> spec_deleted owned (butlast (fst (lb_Reconcile controller service))) = []
      \<and> spec_deleted owned (fst (lb_Reconcile controller service)) = spec_GC owned tgGroup
      \<and> (\<forall>g. TGGroup_GC g \<in> set (fst (lb_Reconcile controller service)) \<longrightarrow> g = tgGroup)
      \<and> (\<forall>lb. snd (lb_Reconcile controller service) = Inr lb \<longrightarrow>
            Arn lb = lbArn \<and> tgGroupController_GC controller tgGroup = None)"
      unfolding run gc(1) using a b d e f gc(2,3,4)
      by (intro exI [of _ lbArn] exI [of _ tgGroup]) (intro conjI; assumption)
    then show ?thesis by blast
  qed
qed

lemma lb_Reconcile_without_GC:
  assumes "\<forall>g. TGGroup_GC g \<notin> set (fst (lb_Reconcile controller service))"
  shows "spec_deleted owned (fst (lb_Reconcile controller service)) = []"
    and "snd (lb_Reconcile controller service) \<noteq> Inr lb"
proof -
  have "\<not> (\<exists>lbArn tgGroup. dropWhile (\<lambda>c. \<not> groupCall c) (fst (lb_Reconcile controller service))
           = [TGGroup_Reconcile service, LSGroup_Reconcile lbArn service tgGroup,
              TGGroup_GC tgGroup])"
  proof
    assume "\<exists>lbArn tgGroup. dropWhile (\<lambda>c. \<not> groupCall c) (fst (lb_Reconcile controller service))
           = [TGGroup_Reconcile service, LSGroup_Reconcile lbArn service tgGroup,
              TGGroup_GC tgGroup]"
    then obtain lbArn tgGroup where "dropWhile (\<lambda>c. \<not> groupCall c) (fst (lb_Reconcile controller service))
           = [TGGroup_Reconcile service, LSGroup_Reconcile lbArn service tgGroup,
              TGGroup_GC tgGroup]" by blast
    then have "TGGroup_GC tgGroup \<in> set (dropWhile (\<lambda>c. \<not> groupCall c) (fst (lb_Reconcile controller service)))"
      by simp
    then have "TGGroup_GC tgGroup \<in> set (fst (lb_Reconcile controller service))"
      by (rule set_dropWhileD)
    with assms show False by blast
  qed
  with lb_Reconcile_cases [of controller service owned]
  show "spec_deleted owned (fst (lb_Reconcile controller service)) = []"
    and "snd (lb_Reconcile controller service) \<noteq> Inr lb"
    by blast+
qed

lemma lb_Reconcile_with_GC:
  assumes "TGGroup_GC tgGroup \<in> set (fst (lb_Reconcile controller service))"
  shows "\<exists>lbArn. dropWhile (\<lambda>c. \<not> groupCall c) (fst (lb_Reconcile controller service))
                  = [TGGroup_Reconcile service, LSGroup_Reconcile lbArn service tgGroup,
                     TGGroup_GC tgGroup]
               \<and> tgGroupController_Reconcile controller service = Inr tgGroup
               \<and> lsGroupController_Reconcile controller lbArn service tgGroup = None
               \<and> last (fst (lb_Reconcile controller service)) = TGGroup_GC tgGroup
               \<and> spec_deleted owned (butlast (fst (lb_Reconcile controller service))) = []
               \<and> spec_deleted owned (fst (lb_Reconcile controller service)) = spec_GC owned tgGroup
               \<and> (\<forall>lb. snd (lb_Reconcile controller service) = Inr lb \<longrightarrow>
                     Arn lb = lbArn \<and> tgGroupController_GC controller tgGroup = None)"
proof -
  from assms have "\<not> (\<forall>g. TGGroup_GC g \<notin> set (fst (lb_Reconcile controller service)))"
    by blast
  with lb_Reconcile_cases [of controller service owned]
  obtain lbArn g where
      a: "dropWhile (\<lambda>c. \<not> groupCall c) (fst (lb_Reconcile controller service))
           = [TGGroup_Reconcile service, LSGroup_Reconcile lbArn service g, TGGroup_GC g]"
      and b: "tgGroupController_Reconcile controller service = Inr g"
      and c: "lsGroupController_Reconcile controller lbArn service g = None"
      and d: "last (fst (lb_Reconcile controller service)) = TGGroup_GC g"
      and e: "spec_deleted owned (butlast (fst (lb_Reconcile controller service))) = []"
      and f: "spec_deleted owned (fst (lb_Reconcile controller service)) = spec_GC owned g"
      and u: "\<forall>g'. TGGroup_GC g' \<in> set (fst (lb_Reconcile controller service)) \<longrightarrow> g' = g"
      and h: "\<forall>lb. snd (lb_Reconcile controller service) = Inr lb \<longrightarrow>
            Arn lb = lbArn \<and> tgGroupController_GC controller g = None"
    by blast
  from u assms have "tgGroup = g" by blast
  with a b c d e f h show ?thesis by blast
qed

text \<open>
  Claim C8. In a run of \<open>Reconcile\<close>, a garbage collection of a group is the last call and
  comes right after the convergence of the target groups, which returned this group, and the
  convergence of the listeners against this same group, which succeeded; no call before it
  deletes a target group, and it deletes the owned target groups that are absent from the
  group. A run without a garbage collection deletes no target group. A successful run ends
  with these three calls, for the load balancer it returns, its garbage collection succeeded,
  and the target groups it deletes are the owned ones that are not of the group: a target
  group of the group is left in place. When the lookup of the annotations, the configuration,
  the load balancer, its attributes, the target groups, the listeners and the garbage
  collection all succeed, the run is these calls in this order, it succeeds, and it deletes
  the stale target groups.
\<close>

theorem lb_Reconcile_gc_after_listeners:
  "(\<forall>tgGroup'. TGGroup_GC tgGroup' \<in> set (fst (lb_Reconcile controller service)) \<longrightarrow>
      (\<exists>lbArn. dropWhile (\<lambda>c. \<not> groupCall c) (fst (lb_Reconcile controller service))
                  = [TGGroup_Reconcile service, LSGroup_Reconcile lbArn service tgGroup',
                     TGGroup_GC tgGroup']
               \<and> tgGroupController_Reconcile controller service = Inr tgGroup'
               \<and> lsGroupController_Reconcile controller lbArn service tgGroup' = None
               \<and> last (fst (lb_Reconcile controller service)) = TGGroup_GC tgGroup'
               \<and> spec_deleted owned (butlast (fst (lb_Reconcile controller service))) = []
               \<and> spec_deleted owned (fst (lb_Reconcile controller service))
                   = spec_GC owned tgGroup'))
   \<and> ((\<forall>tgGroup'. TGGroup_GC tgGroup' \<notin> set (fst (lb_Reconcile controller service))) \<longrightarrow>
        spec_deleted owned (fst (lb_Reconcile controller service)) = [])
   \<and> (\<forall>lb. snd (lb_Reconcile controller service) = Inr lb \<longrightarrow>
        (\<exists>tgGroup'. dropWhile (\<lambda>c. \<not> groupCall c) (fst (lb_Reconcile controller service))
                      = [TGGroup_Reconcile service, LSGroup_Reconcile (Arn lb) service tgGroup',
                         TGGroup_GC tgGroup']
                   \<and> tgGroupController_Reconcile controller service = Inr tgGroup'
                   \<and> lsGroupController_Reconcile controller (Arn lb) service tgGroup' = None
                   \<and> tgGroupController_GC controller tgGroup' = None
                   \<and> last (fst (lb_Reconcile controller service)) = TGGroup_GC tgGroup'
                   \<and> spec_deleted owned (butlast (fst (lb_Reconcile controller service))) = []
                   \<and> (\<forall>arn. arn \<in> set (spec_deleted owned (fst (lb_Reconcile controller service)))
                          \<longleftrightarrow> arn \<in> set owned
                               \<and> (\<forall>(backend, targetGroup) \<in> set (TGByBackend tgGroup').
                                      tg_Arn targetGroup \<noteq> arn))))
   \<and> (\<forall>serviceAnnos cs1 lbConfig cs2 found tgGroup'.
        store_GetServiceAnnotations (lb_store controller)
            (k8s_MetaNamespaceKey (lb_packages controller) service) = Inr serviceAnnos
        \<and> buildLBConfig controller service serviceAnnos = (cs1, Inr lbConfig)
        \<and> validateLBConfig controller service lbConfig = None
        \<and> ensureLBInstance controller lbConfig = (cs2, Inr found)
        \<and> lb_attrsController_Reconcile controller (StringValue (lbi_LoadBalancerArn found))
            (lba_Attributes (LoadBalancer serviceAnnos)) = None
        \<and> tgGroupController_Reconcile controller service = Inr tgGroup'
        \<and> lsGroupController_Reconcile controller (StringValue (lbi_LoadBalancerArn found))
            service tgGroup' = None
        \<and> tgGroupController_GC controller tgGroup' = None
        \<longrightarrow> lb_Reconcile controller service =
              (Store_GetServiceAnnotations (k8s_MetaNamespaceKey (lb_packages controller) service)
                 # cs1 @ cs2
                 @ [LBAttrs_Reconcile (StringValue (lbi_LoadBalancerArn found))
                      (lba_Attributes (LoadBalancer serviceAnnos)),
                    TGGroup_Reconcile service,
                    LSGroup_Reconcile (StringValue (lbi_LoadBalancerArn found)) service tgGroup',
                    TGGroup_GC tgGroup'],
               Inr \<lparr>Arn = StringValue (lbi_LoadBalancerArn found),
                    DNSName = StringValue (lbi_DNSName found)\<rparr>)
            \<and> spec_deleted owned (fst (lb_Reconcile controller service))
                = spec_GC owned tgGroup')"
proof (intro conjI allI impI)
  fix tgGroup'
  assume "TGGroup_GC tgGroup' \<in> set (fst (lb_Reconcile controller service))"
  from lb_Reconcile_with_GC [OF this, of owned]
  show "\<exists>lbArn. dropWhile (\<lambda>c. \<not> groupCall c) (fst (lb_Reconcile controller service))
                  = [TGGroup_Reconcile service, LSGroup_Reconcile lbArn service tgGroup',
                     TGGroup_GC tgGroup']
               \<and> tgGroupController_Reconcile controller service = Inr tgGroup'
               \<and> lsGroupController_Reconcile controller lbArn service tgGroup' = None
               \<and> last (fst (lb_Reconcile controller service)) = TGGroup_GC tgGroup'
               \<and> spec_deleted owned (butlast (fst (lb_Reconcile controller service))) = []
               \<and> spec_deleted owned (fst (lb_Reconcile controller service))
                   = spec_GC owned tgGroup'"
    by blast
next
  assume "\<forall>tgGroup'. TGGroup_GC tgGroup' \<notin> set (fst (lb_Reconcile controller service))"
  then show "spec_deleted owned (fst (lb_Reconcile controller service)) = []"
    by (rule lb_Reconcile_without_GC)
next
  fix lb
  assume ok: "snd (lb_Reconcile controller service) = Inr lb"
  then obtain tgGroup where gc: "TGGroup_GC tgGroup \<in> set (fst (lb_Reconcile controller service))"
    using lb_Reconcile_without_GC(2) [of controller service lb] by blast
  from lb_Reconcile_with_GC [OF gc, of owned] ok
  have a: "dropWhile (\<lambda>c. \<not> groupCall c) (fst (lb_Reconcile controller service))
           = [TGGroup_Reconcile service, LSGroup_Reconcile (Arn lb) service tgGroup,
              TGGroup_GC tgGroup]"
      and b: "tgGroupController_Reconcile controller service = Inr tgGroup"
      and c: "lsGroupController_Reconcile controller (Arn lb) service tgGroup = None"
      and d: "last (fst (lb_Reconcile controller service)) = TGGroup_GC tgGroup"
      and e: "spec_deleted owned (butlast (fst (lb_Reconcile controller service))) = []"
      and f: "spec_deleted owned (fst (lb_Reconcile controller service)) = spec_GC owned tgGroup"
      and g: "tgGroupController_GC controller tgGroup = None"
    by blast+
  have i: "\<forall>arn. arn \<in> set (spec_deleted owned (fst (lb_Reconcile controller service)))
                          \<longleftrightarrow> arn \<in> set owned
                               \<and> (\<forall>(backend, targetGroup) \<in> set (TGByBackend tgGroup).
                                      tg_Arn targetGroup \<noteq> arn)"
    unfolding f by (simp only: spec_GC_iff) simp
  from a b c g d e i
  show "\<exists>tgGroup'. dropWhile (\<lambda>c. \<not> groupCall c) (fst (lb_Reconcile controller service))
                      = [TGGroup_Reconcile service, LSGroup_Reconcile (Arn lb) service tgGroup',
                         TGGroup_GC tgGroup']
                   \<and> tgGroupController_Reconcile controller service = Inr tgGroup'
                   \<and> lsGroupController_Reconcile controller (Arn lb) service tgGroup' = None
                   \<and> tgGroupController_GC controller tgGroup' = None
                   \<and> last (fst (lb_Reconcile controller service)) = TGGroup_GC tgGroup'
                   \<and> spec_deleted owned (butlast (fst (lb_Reconcile controller service))) = []
                   \<and> (\<forall>arn. arn \<in> set (spec_deleted owned (fst (lb_Reconcile controller service)))
                          \<longleftrightarrow> arn \<in> set owned
                               \<and> (\<forall>(backend, targetGroup) \<in> set (TGByBackend tgGroup').
                                      tg_Arn targetGroup \<noteq> arn))"
    by (intro exI [of _ tgGroup] conjI)
next
  fix serviceAnnos cs1 lbConfig cs2 found tgGroup'
  assume h: "store_GetServiceAnnotations (lb_store controller)
            (k8s_MetaNamespaceKey (lb_packages controller) service) = Inr serviceAnnos
        \<and> buildLBConfig controller service serviceAnnos = (cs1, Inr lbConfig)
        \<and> validateLBConfig controller service lbConfig = None
        \<and> ensureLBInstance controller lbConfig = (cs2, Inr found)
        \<and> lb_attrsController_Reconcile controller (StringValue (lbi_LoadBalancerArn found))
            (lba_Attributes (LoadBalancer serviceAnnos)) = None
        \<and> tgGroupController_Reconcile controller service = Inr tgGroup'
        \<and> lsGroupController_Reconcile controller (StringValue (lbi_LoadBalancerArn found))
            service tgGroup' = None
        \<and> tgGroupController_GC controller tgGroup' = None"
  then show run: "lb_Reconcile controller service =
              (Store_GetServiceAnnotations (k8s_MetaNamespaceKey (lb_packages controller) service)
                 # cs1 @ cs2
                 @ [LBAttrs_Reconcile (StringValue (lbi_LoadBalancerArn found))
                      (lba_Attributes (LoadBalancer serviceAnnos)),
                    TGGroup_Reconcile service,
                    LSGroup_Reconcile (StringValue (lbi_LoadBalancerArn found)) service tgGroup',
                    TGGroup_GC tgGroup'],
               Inr \<lparr>Arn = StringValue (lbi_LoadBalancerArn found),
                    DNSName = StringValue (lbi_DNSName found)\<rparr>)"
    by (simp add: lb_Reconcile_eq Let_def)
  have "TGGroup_GC tgGroup' \<in> set (fst (lb_Reconcile controller service))"
    unfolding run by simp
  from lb_Reconcile_with_GC [OF this, of owned]
  show "spec_deleted owned (fst (lb_Reconcile controller service)) = spec_GC owned tgGroup'"
    by blast
qed

text \<open>No load balancer exists yet; before, the service had the target groups \<open>A\<close> and \<open>B\<close>, and
  now its group has only \<open>A\<close>. When every call succeeds, the run deletes \<open>B\<close>, by its last
  call; when the convergence of the listeners fails, the run stops there and deletes
  nothing.\<close>

theorem lb_Reconcile_gc_after_listeners_witness:
  "lb_Reconcile (exampleLB\<lparr>tgGroupController_Reconcile := (\<lambda>service. Inr exampleGroup)\<rparr>) exampleService =
     ([Store_GetServiceAnnotations ''default/foo'',
       Cloud_GetLoadBalancerByName ''nlb-default-foo-a4dd'',
       Cloud_CreateLoadBalancerWithContext
         \<lparr>clb_Name = Some ''nlb-default-foo-a4dd'', clb_Type = Some ''network'',
          clb_Scheme = Some ''internal'', clb_IpAddressType = Some ''ipv4'',
          clb_Subnets = [''subnet-a'', ''subnet-b''], clb_Tags = Map.empty\<rparr>,
       LBAttrs_Reconcile ''arn:lb/new'' [],
       TGGroup_Reconcile exampleService,
       LSGroup_Reconcile ''arn:lb/new'' exampleService exampleGroup,
       TGGroup_GC exampleGroup],
      Inr \<lparr>Arn = ''arn:lb/new'', DNSName = ''new.elb.example''\<rparr>)
   \<and> spec_deleted [''arn:tg/A'', ''arn:tg/B'']
         (fst (lb_Reconcile (exampleLB\<lparr>tgGroupController_Reconcile := (\<lambda>service. Inr exampleGroup)\<rparr>)
                 exampleService)) = [''arn:tg/B'']
   \<and> spec_deleted [''arn:tg/A'', ''arn:tg/B'']
         (butlast (fst (lb_Reconcile (exampleLB\<lparr>tgGroupController_Reconcile := (\<lambda>service. Inr exampleGroup)\<rparr>)
                 exampleService))) = []
   \<and> lb_Reconcile (exampleLB\<lparr>tgGroupController_Reconcile := (\<lambda>service. Inr exampleGroup),
                             lsGroupController_Reconcile :=
                               (\<lambda>lbArn service tgGroup. Some (Error ''Throttling''))\<rparr>) exampleService =
       ([Store_GetServiceAnnotations ''default/foo'',
         Cloud_GetLoadBalancerByName ''nlb-default-foo-a4dd'',
         Cloud_CreateLoadBalancerWithContext
           \<lparr>clb_Name = Some ''nlb-default-foo-a4dd'', clb_Type = Some ''network'',
            clb_Scheme = Some ''internal'', clb_IpAddressType = Some ''ipv4'',
            clb_Subnets = [''subnet-a'', ''subnet-b''], clb_Tags = Map.empty\<rparr>,
         LBAttrs_Reconcile ''arn:lb/new'' [],
         TGGroup_Reconcile exampleService,
         LSGroup_Reconcile ''arn:lb/new'' exampleService exampleGroup],
        Inl (Error ''failed to reconcile listeners due to Throttling''))
   \<and> spec_deleted [''arn:tg/A'', ''arn:tg/B'']
         (fst (lb_Reconcile (exampleLB\<lparr>tgGroupController_Reconcile := (\<lambda>service. Inr exampleGroup),
                                      lsGroupController_Reconcile :=
                                        (\<lambda>lbArn service tgGroup. Some (Error ''Throttling''))\<rparr>)
                 exampleService)) = []"
  using lb_Reconcile_gc_after_listeners
          [of "exampleLB\<lparr>tgGroupController_Reconcile := (\<lambda>service. Inr exampleGroup)\<rparr>"
              exampleService "[''arn:tg/A'', ''arn:tg/B'']"]
        lb_Reconcile_gc_after_listeners
          [of "exampleLB\<lparr>tgGroupController_Reconcile := (\<lambda>service. Inr exampleGroup),
                         lsGroupController_Reconcile :=
                           (\<lambda>lbArn service tgGroup. Some (Error ''Throttling''))\<rparr>"
              exampleService "[''arn:tg/A'', ''arn:tg/B'']"]
  by (simp add: lb_Reconcile_eq buildLBConfig_def resolveSubnets_def validateLBConfig_def
        ensureLBInstance_def newLBInstance_def HasPrefix_def Let_def errorOnly_def io_simps
        StringValue_def spec_GC_def spec_deleted_def LoadBalancerTypeEnumNetwork_def
        exampleLB_def exampleCloud_def exampleStore_def exampleAnnotations_def
        exampleGenerator_def examplePackages_def NameLB_example
        exampleService_def exampleGroup_def exampleBackend_def examplePorts_def)

subsection \<open>Subnets\<close>

lemma subnetIsUsable_zones:
  "sn_AvailabilityZone new \<noteq> None \<Longrightarrow> \<forall>subnet \<in> set existing. sn_AvailabilityZone subnet \<noteq> None \<Longrightarrow>
   subnetIsUsable new existing
     = Inr (sn_AvailabilityZone new \<notin> sn_AvailabilityZone ` set existing)"
  by (induction existing) (auto split: option.splits)

lemma keepUsable_spec:
  "\<forall>subnet \<in> set rest. sn_AvailabilityZone subnet \<noteq> None \<Longrightarrow>
   \<forall>subnet \<in> set useableSubnets. sn_AvailabilityZone subnet \<noteq> None \<Longrightarrow>
   keepUsable rest useableSubnets out =
     Inr (out @ map (\<lambda>subnet. StringValue (sn_SubnetId subnet))
                 (spec_firstPerZone
                    (filter (\<lambda>subnet. sn_AvailabilityZone subnet
                                        \<notin> sn_AvailabilityZone ` set useableSubnets) rest)))"
proof (induction rest arbitrary: useableSubnets out)
  case Nil
  then show ?case by simp
next
  case (Cons subnet rest)
  have u: "subnetIsUsable subnet useableSubnets
             = Inr (sn_AvailabilityZone subnet \<notin> sn_AvailabilityZone ` set useableSubnets)"
    using Cons.prems by (intro subnetIsUsable_zones) auto
  show ?case
  proof (cases "sn_AvailabilityZone subnet \<in> sn_AvailabilityZone ` set useableSubnets")
    case True
    with u Cons.IH [of useableSubnets out] Cons.prems show ?thesis by simp
  next
    case False
    have f: "filter (\<lambda>s. sn_AvailabilityZone s \<notin> sn_AvailabilityZone ` set (useableSubnets @ [subnet])) rest
               = filter (\<lambda>other. sn_AvailabilityZone other \<noteq> sn_AvailabilityZone subnet)
                   (filter (\<lambda>s. sn_AvailabilityZone s \<notin> sn_AvailabilityZone ` set useableSubnets) rest)"
      by (auto intro: filter_cong)
    have "keepUsable rest (useableSubnets @ [subnet]) (out @ [StringValue (sn_SubnetId subnet)])
            = Inr ((out @ [StringValue (sn_SubnetId subnet)])
                   @ map (\<lambda>subnet. StringValue (sn_SubnetId subnet))
                       (spec_firstPerZone
                         (filter (\<lambda>s. sn_AvailabilityZone s
                                     \<notin> sn_AvailabilityZone ` set (useableSubnets @ [subnet])) rest)))"
      using Cons.prems by (intro Cons.IH) auto
    with u False f show ?thesis by simp
  qed
qed

lemma spec_firstPerZone_subset: "set (spec_firstPerZone subnets) \<subseteq> set subnets"
  by (induction subnets rule: spec_firstPerZone.induct) auto

lemma spec_firstPerZone_zones:
  "sn_AvailabilityZone ` set (spec_firstPerZone subnets) = sn_AvailabilityZone ` set subnets"
  by (induction subnets rule: spec_firstPerZone.induct) auto

lemma spec_firstPerZone_distinct: "distinct (map sn_AvailabilityZone (spec_firstPerZone subnets))"
proof (induction subnets rule: spec_firstPerZone.induct)
  case 1
  then show ?case by simp
next
  case (2 subnet rest)
  have "sn_AvailabilityZone subnet
          \<notin> sn_AvailabilityZone ` set (spec_firstPerZone
               (filter (\<lambda>other. sn_AvailabilityZone other \<noteq> sn_AvailabilityZone subnet) rest))"
    using spec_firstPerZone_subset
            [of "filter (\<lambda>other. sn_AvailabilityZone other \<noteq> sn_AvailabilityZone subnet) rest"]
    by auto
  with "2" show ?case by simp
qed

lemma find_filter_weaker:
  "(\<And>x. P x \<Longrightarrow> Q x) \<Longrightarrow> find P (filter Q xs) = find P xs"
  by (induction xs) auto

lemma spec_firstPerZone_first:
  "kept \<in> set (spec_firstPerZone subnets) \<Longrightarrow>
   find (\<lambda>other. sn_AvailabilityZone other = sn_AvailabilityZone kept) subnets = Some kept"
proof (induction subnets rule: spec_firstPerZone.induct)
  case 1
  then show ?case by simp
next
  case (2 subnet rest)
  show ?case
  proof (cases "kept = subnet")
    case True
    then show ?thesis by simp
  next
    case False
    with "2.prems" have k: "kept \<in> set (spec_firstPerZone
               (filter (\<lambda>other. sn_AvailabilityZone other \<noteq> sn_AvailabilityZone subnet) rest))"
      by simp
    with spec_firstPerZone_subset
            [of "filter (\<lambda>other. sn_AvailabilityZone other \<noteq> sn_AvailabilityZone subnet) rest"]
    have z: "sn_AvailabilityZone kept \<noteq> sn_AvailabilityZone subnet" by auto
    have "find (\<lambda>other. sn_AvailabilityZone other = sn_AvailabilityZone kept)
            (filter (\<lambda>other. sn_AvailabilityZone other \<noteq> sn_AvailabilityZone subnet) rest)
          = find (\<lambda>other. sn_AvailabilityZone other = sn_AvailabilityZone kept) rest"
      using z by (intro find_filter_weaker) auto
    with "2.IH" [OF k] z show ?thesis by auto
  qed
qed

lemma spec_firstPerZone_length:
  "length (spec_firstPerZone subnets) = card (sn_AvailabilityZone ` set subnets)"
proof -
  have "length (spec_firstPerZone subnets) = length (map sn_AvailabilityZone (spec_firstPerZone subnets))"
    by simp
  also have "\<dots> = card (set (map sn_AvailabilityZone (spec_firstPerZone subnets)))"
    using spec_firstPerZone_distinct [of subnets] by (simp only: distinct_card)
  also have "\<dots> = card (sn_AvailabilityZone ` set subnets)"
    by (simp add: spec_firstPerZone_zones)
  finally show ?thesis .
qed

lemma clusterSubnets_eq:
  assumes "scheme = LoadBalancerSchemeEnumInternal
             \<and> key = aws_TagNameSubnetInternalELB (lb_packages controller)
           \<or> scheme = LoadBalancerSchemeEnumInternetFacing
             \<and> key = aws_TagNameSubnetPublicELB (lb_packages controller)"
    and "cloud_GetClusterSubnets (lb_cloud controller) = Inr tagged"
    and "cloud_GetSubnetsByNameOrID (lb_cloud controller) (taggedSubnetIds key tagged) = Inr subnets"
    and "\<forall>subnet \<in> set subnets. sn_AvailabilityZone subnet \<noteq> None"
  shows "clusterSubnets controller scheme =
           ([Cloud_GetClusterSubnets, Cloud_GetSubnetsByNameOrID (taggedSubnetIds key tagged)],
            if length (spec_firstPerZone subnets) < 2
            then Inl (tooFewSubnets (lb_packages controller) key
                        (map (\<lambda>subnet. StringValue (sn_SubnetId subnet)) (spec_firstPerZone subnets)))
            else Inr (sort (map (\<lambda>subnet. StringValue (sn_SubnetId subnet)) (spec_firstPerZone subnets))))"
proof -
  have k: "keepUsable subnets [] [] =
             Inr (map (\<lambda>subnet. StringValue (sn_SubnetId subnet)) (spec_firstPerZone subnets))"
    using keepUsable_spec [of subnets "[]" "[]"] assms(4) by simp
  from assms(1) have key: "(if scheme = LoadBalancerSchemeEnumInternal
              then Some (aws_TagNameSubnetInternalELB (lb_packages controller))
            else if scheme = LoadBalancerSchemeEnumInternetFacing
              then Some (aws_TagNameSubnetPublicELB (lb_packages controller))
            else None) = Some key"
    by (auto simp: LoadBalancerSchemeEnumInternal_def LoadBalancerSchemeEnumInternetFacing_def)
  show ?thesis
    unfolding clusterSubnets_def key
    using assms(2,3) k by (simp add: io_simps Let_def)
qed

lemma resolveSubnets_auto:
  "resolveSubnets controller scheme [] =
     (fst (clusterSubnets controller scheme),
      case snd (clusterSubnets controller scheme) of
        Inl err \<Rightarrow> Inl (err, [])
      | Inr subnets \<Rightarrow> Inr subnets)"
  by (cases "clusterSubnets controller scheme")
     (simp add: resolveSubnets_def split: sum.splits)

text \<open>
  Claim C5. Let the scheme be one of the two, the cloud list the tagged subnets and resolve
  them to \<open>subnets\<close>, each with its availability zone. The subnets kept are the first
  encountered of each zone: their zones are distinct, each kept subnet is the first of
  \<open>subnets\<close> in its zone, every zone is represented, so they are as many as the zones. With
  fewer than two of them \<open>clusterSubnets\<close> fails with an error; otherwise it returns their IDs
  sorted. Resolving an empty annotation list is \<open>clusterSubnets\<close>.
\<close>

theorem clusterSubnets_one_per_zone:
  assumes "scheme = LoadBalancerSchemeEnumInternal
             \<and> key = aws_TagNameSubnetInternalELB (lb_packages controller)
           \<or> scheme = LoadBalancerSchemeEnumInternetFacing
             \<and> key = aws_TagNameSubnetPublicELB (lb_packages controller)"
    and "cloud_GetClusterSubnets (lb_cloud controller) = Inr tagged"
    and "cloud_GetSubnetsByNameOrID (lb_cloud controller) (taggedSubnetIds key tagged) = Inr subnets"
    and "\<forall>subnet \<in> set subnets. sn_AvailabilityZone subnet \<noteq> None"
    and "kept = spec_firstPerZone subnets"
  shows "distinct (map sn_AvailabilityZone kept)
       \<and> (\<forall>subnet \<in> set kept.
            find (\<lambda>other. sn_AvailabilityZone other = sn_AvailabilityZone subnet) subnets = Some subnet)
       \<and> sn_AvailabilityZone ` set kept = sn_AvailabilityZone ` set subnets
       \<and> length kept = card (sn_AvailabilityZone ` set subnets)
       \<and> snd (clusterSubnets controller scheme) =
           (if length kept < 2
            then Inl (tooFewSubnets (lb_packages controller) key
                        (map (\<lambda>subnet. StringValue (sn_SubnetId subnet)) kept))
            else Inr (sort (map (\<lambda>subnet. StringValue (sn_SubnetId subnet)) kept)))
       \<and> (\<forall>out. snd (clusterSubnets controller scheme) = Inr out \<longrightarrow> sorted out \<and> 2 \<le> length out)
       \<and> snd (resolveSubnets controller scheme []) =
           (case snd (clusterSubnets controller scheme) of
              Inl err \<Rightarrow> Inl (err, [])
            | Inr out \<Rightarrow> Inr out)"
proof -
  note eq = clusterSubnets_eq [OF assms(1-4)]
  have a: "distinct (map sn_AvailabilityZone kept)"
    unfolding assms(5) by (rule spec_firstPerZone_distinct)
  have b: "\<forall>subnet \<in> set kept.
            find (\<lambda>other. sn_AvailabilityZone other = sn_AvailabilityZone subnet) subnets = Some subnet"
    unfolding assms(5) using spec_firstPerZone_first by blast
  have c: "sn_AvailabilityZone ` set kept = sn_AvailabilityZone ` set subnets"
    unfolding assms(5) by (rule spec_firstPerZone_zones)
  have d: "length kept = card (sn_AvailabilityZone ` set subnets)"
    unfolding assms(5) by (rule spec_firstPerZone_length)
  have e: "snd (clusterSubnets controller scheme) =
           (if length kept < 2
            then Inl (tooFewSubnets (lb_packages controller) key
                        (map (\<lambda>subnet. StringValue (sn_SubnetId subnet)) kept))
            else Inr (sort (map (\<lambda>subnet. StringValue (sn_SubnetId subnet)) kept)))"
    unfolding assms(5) by (simp add: eq)
  have f: "\<forall>out. snd (clusterSubnets controller scheme) = Inr out \<longrightarrow> sorted out \<and> 2 \<le> length out"
    unfolding e by (auto split: if_splits)
  have g: "snd (resolveSubnets controller scheme []) =
           (case snd (clusterSubnets controller scheme) of
              Inl err \<Rightarrow> Inl (err, [])
            | Inr out \<Rightarrow> Inr out)"
    by (simp add: resolveSubnets_auto)
  from a b c d e f g show ?thesis by (intro conjI)
qed

text \<open>Of \<open>subnet-c\<close> and \<open>subnet-b\<close>, both in \<open>us-east-1a\<close>, the first one listed is kept; with
  these two alone, one zone is left and the resolution fails.\<close>

lemmas subnet_example_defs = exampleLB_def exampleCloud_def taggedCloud_def exampleSubnets_def
  exampleTagged_def examplePackages_def

theorem clusterSubnets_one_per_zone_witness:
  "clusterSubnets (exampleLB\<lparr>lb_cloud := taggedCloud\<rparr>) ''internal'' =
     ([Cloud_GetClusterSubnets, Cloud_GetSubnetsByNameOrID [''subnet-c'', ''subnet-a'', ''subnet-b'']],
      Inr [''subnet-a'', ''subnet-c''])
   \<and> snd (clusterSubnets
            (exampleLB\<lparr>lb_cloud := taggedCloud\<lparr>cloud_GetSubnetsByNameOrID :=
                                      (\<lambda>names. Inr [exampleSubnets ! 0, exampleSubnets ! 2])\<rparr>\<rparr>)
            ''internal'') =
       Inl (tooFewSubnets examplePackages ''kubernetes.io/role/internal-elb'' [''subnet-c''])"
proof -
  have k: "spec_firstPerZone exampleSubnets = [exampleSubnets ! 0, exampleSubnets ! 1]"
    by (simp add: exampleSubnets_def)
  have k2: "spec_firstPerZone [exampleSubnets ! 0, exampleSubnets ! 2] = [exampleSubnets ! 0]"
    by (simp add: exampleSubnets_def)
  have t: "taggedSubnetIds ''kubernetes.io/role/internal-elb'' exampleTagged
             = [''subnet-c'', ''subnet-a'', ''subnet-b'']"
    by (simp add: taggedSubnetIds_def exampleTagged_def StringValue_def)
  have s: "sort [''subnet-c'', ''subnet-a''] = [''subnet-a'', ''subnet-c'']"
    by simp
  have c1: "fst (clusterSubnets (exampleLB\<lparr>lb_cloud := taggedCloud\<rparr>) ''internal'')
              = [Cloud_GetClusterSubnets, Cloud_GetSubnetsByNameOrID [''subnet-c'', ''subnet-a'', ''subnet-b'']]"
    using t by (simp add: clusterSubnets_def subnet_example_defs LoadBalancerSchemeEnumInternal_def
                  io_proj Let_def)
  have c2: "snd (clusterSubnets (exampleLB\<lparr>lb_cloud := taggedCloud\<rparr>) ''internal'')
              = Inr [''subnet-a'', ''subnet-c'']"
    using clusterSubnets_one_per_zone
            [of "''internal''" "''kubernetes.io/role/internal-elb''"
                "exampleLB\<lparr>lb_cloud := taggedCloud\<rparr>" exampleTagged exampleSubnets
                "[exampleSubnets ! 0, exampleSubnets ! 1]"] k s
    by (simp add: subnet_example_defs LoadBalancerSchemeEnumInternal_def StringValue_def)
  have c3: "snd (clusterSubnets
            (exampleLB\<lparr>lb_cloud := taggedCloud\<lparr>cloud_GetSubnetsByNameOrID :=
                                      (\<lambda>names. Inr [exampleSubnets ! 0, exampleSubnets ! 2])\<rparr>\<rparr>)
            ''internal'') =
       Inl (tooFewSubnets examplePackages ''kubernetes.io/role/internal-elb'' [''subnet-c''])"
    using clusterSubnets_one_per_zone
            [of "''internal''" "''kubernetes.io/role/internal-elb''"
                "exampleLB\<lparr>lb_cloud := taggedCloud\<lparr>cloud_GetSubnetsByNameOrID :=
                                      (\<lambda>names. Inr [exampleSubnets ! 0, exampleSubnets ! 2])\<rparr>\<rparr>"
                exampleTagged "[exampleSubnets ! 0, exampleSubnets ! 2]"
                "[exampleSubnets ! 0]"] k2
    by (simp add: subnet_example_defs LoadBalancerSchemeEnumInternal_def StringValue_def)
  from c1 c2 c3 show ?thesis by (simp add: prod_eq_iff)
qed

lemma resolveSubnets_nonempty_eq:
  assumes "in' \<noteq> []"
  shows "resolveSubnets controller scheme in' =
     (let names = filter (\<lambda>subnet. \<not> HasPrefix subnet ''subnet-'') in';
          ids = filter (\<lambda>subnet. HasPrefix subnet ''subnet-'') in';
          finish = (\<lambda>subnets.
            if length (sort subnets) \<noteq> length in' then
              Inl (Error (''not all subnets were resolvable, ('' @ Join in' '',''
                            @ '' != '' @ Join (sort subnets) '','' @ '')''), sort subnets)
            else Inr (sort subnets))
      in if names = [] then ([], finish ids)
         else (case cloud_GetSubnetsByNameOrID (lb_cloud controller) names of
                 Inl err \<Rightarrow> ([Cloud_GetSubnetsByNameOrID names], Inl (err, ids))
               | Inr found \<Rightarrow>
                   ([Cloud_GetSubnetsByNameOrID names],
                    finish (ids @ map (\<lambda>subnet. StringValue (sn_SubnetId subnet)) found))))"
  using assms by (simp add: resolveSubnets_def Let_def split: sum.splits)

text \<open>
  Claim C6. For a non-empty annotation list, the entries with the prefix \<open>subnet-\<close> are not
  looked up and pass into the result as they are; the other entries are looked up by name or
  ID, in one call. When the lookup fails, its error is returned. Otherwise the resolved list
  is the passed IDs and the IDs found, sorted; when its length differs from the number of
  entries the result is an error whose message has the requested list and the resolved list,
  and when the lengths agree the result is the resolved list. So a list that is returned
  without an error has as many subnets as the annotation has entries, and is sorted.
\<close>

theorem resolveSubnets_explicit:
  assumes "in' \<noteq> []"
    and "names = filter (\<lambda>subnet. \<not> HasPrefix subnet ''subnet-'') in'"
    and "ids = filter (\<lambda>subnet. HasPrefix subnet ''subnet-'') in'"
  shows "fst (resolveSubnets controller scheme in') =
           (if names = [] then [] else [Cloud_GetSubnetsByNameOrID names])
       \<and> (\<forall>err. names \<noteq> [] \<and> cloud_GetSubnetsByNameOrID (lb_cloud controller) names = Inl err \<longrightarrow>
             snd (resolveSubnets controller scheme in') = Inl (err, ids))
       \<and> (\<forall>found resolved.
             (names = [] \<and> found = []
              \<or> names \<noteq> [] \<and> cloud_GetSubnetsByNameOrID (lb_cloud controller) names = Inr found)
             \<and> resolved = sort (ids @ map (\<lambda>subnet. StringValue (sn_SubnetId subnet)) found) \<longrightarrow>
             snd (resolveSubnets controller scheme in') =
               (if length resolved \<noteq> length in' then
                  Inl (Error (''not all subnets were resolvable, ('' @ Join in' '',''
                                @ '' != '' @ Join resolved '','' @ '')''), resolved)
                else Inr resolved))
       \<and> (\<forall>subnets. snd (resolveSubnets controller scheme in') = Inr subnets \<longrightarrow>
             length subnets = length in' \<and> sorted subnets)"
proof (intro conjI allI impI)
  show "fst (resolveSubnets controller scheme in') =
           (if names = [] then [] else [Cloud_GetSubnetsByNameOrID names])"
    using assms by (simp add: resolveSubnets_nonempty_eq Let_def split: sum.splits)
next
  fix err
  assume "names \<noteq> [] \<and> cloud_GetSubnetsByNameOrID (lb_cloud controller) names = Inl err"
  then show "snd (resolveSubnets controller scheme in') = Inl (err, ids)"
    using assms by (simp add: resolveSubnets_nonempty_eq Let_def)
next
  fix found resolved
  assume "(names = [] \<and> found = []
              \<or> names \<noteq> [] \<and> cloud_GetSubnetsByNameOrID (lb_cloud controller) names = Inr found)
             \<and> resolved = sort (ids @ map (\<lambda>subnet. StringValue (sn_SubnetId subnet)) found)"
  then show "snd (resolveSubnets controller scheme in') =
               (if length resolved \<noteq> length in' then
                  Inl (Error (''not all subnets were resolvable, ('' @ Join in' '',''
                                @ '' != '' @ Join resolved '','' @ '')''), resolved)
                else Inr resolved)"
    using assms by (auto simp: resolveSubnets_nonempty_eq Let_def)
next
  fix subnets
  assume "snd (resolveSubnets controller scheme in') = Inr subnets"
  then show "length subnets = length in'"
    using assms(1) by (auto simp: resolveSubnets_nonempty_eq Let_def split: if_splits sum.splits)
next
  fix subnets
  assume "snd (resolveSubnets controller scheme in') = Inr subnets"
  then show "sorted subnets"
    using assms(1) by (auto simp: resolveSubnets_nonempty_eq Let_def split: if_splits sum.splits)
qed

text \<open>The subnets \<open>subnet-aaa\<close> and \<open>prod-subnet\<close>, where first no subnet has the name
  \<open>prod-subnet\<close>, and then one has.\<close>

theorem resolveSubnets_explicit_witness:
  "resolveSubnets exampleLB ''internal'' [''subnet-aaa'', ''prod-subnet''] =
     ([Cloud_GetSubnetsByNameOrID [''prod-subnet'']],
      Inl (Error ''not all subnets were resolvable, (subnet-aaa,prod-subnet != subnet-aaa)'',
           [''subnet-aaa'']))
   \<and> resolveSubnets
        (exampleLB\<lparr>lb_cloud := exampleCloud\<lparr>cloud_GetSubnetsByNameOrID :=
           (\<lambda>names. Inr [\<lparr>sn_SubnetId = Some ''subnet-0f'', sn_AvailabilityZone = Some ''us-east-1a''\<rparr>])\<rparr>\<rparr>)
        ''internal'' [''subnet-aaa'', ''prod-subnet''] =
     ([Cloud_GetSubnetsByNameOrID [''prod-subnet'']], Inr [''subnet-0f'', ''subnet-aaa''])"
proof -
  have s: "sort [''subnet-aaa'', ''subnet-0f''] = [''subnet-0f'', ''subnet-aaa'']"
    by simp
  have a: "resolveSubnets exampleLB ''internal'' [''subnet-aaa'', ''prod-subnet''] =
     ([Cloud_GetSubnetsByNameOrID [''prod-subnet'']],
      Inl (Error ''not all subnets were resolvable, (subnet-aaa,prod-subnet != subnet-aaa)'',
           [''subnet-aaa'']))"
    using resolveSubnets_explicit
            [of "[''subnet-aaa'', ''prod-subnet'']" "[''prod-subnet'']" "[''subnet-aaa'']"
                exampleLB "''internal''"]
    by (simp add: HasPrefix_def exampleLB_def exampleCloud_def prod_eq_iff)
  have b: "resolveSubnets
        (exampleLB\<lparr>lb_cloud := exampleCloud\<lparr>cloud_GetSubnetsByNameOrID :=
           (\<lambda>names. Inr [\<lparr>sn_SubnetId = Some ''subnet-0f'', sn_AvailabilityZone = Some ''us-east-1a''\<rparr>])\<rparr>\<rparr>)
        ''internal'' [''subnet-aaa'', ''prod-subnet''] =
     ([Cloud_GetSubnetsByNameOrID [''prod-subnet'']], Inr [''subnet-0f'', ''subnet-aaa''])"
    using resolveSubnets_explicit
            [of "[''subnet-aaa'', ''prod-subnet'']" "[''prod-subnet'']" "[''subnet-aaa'']"
                "exampleLB\<lparr>lb_cloud := exampleCloud\<lparr>cloud_GetSubnetsByNameOrID :=
           (\<lambda>names. Inr [\<lparr>sn_SubnetId = Some ''subnet-0f'', sn_AvailabilityZone = Some ''us-east-1a''\<rparr>])\<rparr>\<rparr>"
                "''internal''"] s
    by (simp add: HasPrefix_def exampleLB_def exampleCloud_def prod_eq_iff StringValue_def)
  from a b show ?thesis by simp
qed

section \<open>Properties of the target group controller\<close>

subsection \<open>The health check port\<close>

text \<open>
  Claim C7. A numeric port is returned as it is, in decimal, with no call. The sentinel port
  is returned unchanged, with no lookup of the service. Any other string is the name of a
  port: the service is read from the store and the port looked up on it; for the target type
  \<open>instance\<close> the result is the node port in decimal, or an error when the node port is zero,
  and for any other target type (\<open>ip\<close>) it is the target port of the resolved service port. A
  failure to read the service or to find the port is returned as an error.
\<close>

theorem resolveServiceHealthCheckPort_cases:
  "(ios_Type annotation = intstr_Int \<longrightarrow>
      resolveServiceHealthCheckPort controller namespace serviceName annotation targetType
        = ([], Inr (Itoa (sint (ios_IntVal annotation)))))
   \<and> (ios_Type annotation = intstr_String
        \<and> ios_StrVal annotation = healthcheck_DefaultPort (tg_packages controller) \<longrightarrow>
      resolveServiceHealthCheckPort controller namespace serviceName annotation targetType
        = ([], Inr (healthcheck_DefaultPort (tg_packages controller))))
   \<and> (\<forall>service port.
        ios_Type annotation = intstr_String
        \<and> ios_StrVal annotation \<noteq> healthcheck_DefaultPort (tg_packages controller)
        \<and> store_GetService (tg_store controller) (namespace @ ''/'' @ serviceName) = Inr service
        \<and> k8s_LookupServicePort (tg_packages controller) service annotation = Inr port \<longrightarrow>
        fst (resolveServiceHealthCheckPort controller namespace serviceName annotation targetType)
          = [Store_GetService (namespace @ ''/'' @ serviceName)]
        \<and> (targetType = TargetTypeEnumInstance \<and> sp_NodePort port \<noteq> 0 \<longrightarrow>
             snd (resolveServiceHealthCheckPort controller namespace serviceName annotation targetType)
               = Inr (Itoa (sint (sp_NodePort port))))
        \<and> (targetType = TargetTypeEnumInstance \<and> sp_NodePort port = 0 \<longrightarrow>
             snd (resolveServiceHealthCheckPort controller namespace serviceName annotation targetType)
               = Inl (Error (''failed to find valid NodePort for service '' @ serviceName
                               @ '' with port '' @ sp_Name port),
                      ios_StrVal annotation))
        \<and> (targetType \<noteq> TargetTypeEnumInstance \<longrightarrow>
             snd (resolveServiceHealthCheckPort controller namespace serviceName annotation targetType)
               = Inr (ios_String (sp_TargetPort port))))
   \<and> (\<forall>err.
        ios_Type annotation = intstr_String
        \<and> ios_StrVal annotation \<noteq> healthcheck_DefaultPort (tg_packages controller)
        \<and> store_GetService (tg_store controller) (namespace @ ''/'' @ serviceName) = Inl err \<longrightarrow>
        snd (resolveServiceHealthCheckPort controller namespace serviceName annotation targetType)
          = Inl (Wrap err ''failed to resolve healthcheck service name'', ios_StrVal annotation))
   \<and> (\<forall>service err.
        ios_Type annotation = intstr_String
        \<and> ios_StrVal annotation \<noteq> healthcheck_DefaultPort (tg_packages controller)
        \<and> store_GetService (tg_store controller) (namespace @ ''/'' @ serviceName) = Inr service
        \<and> k8s_LookupServicePort (tg_packages controller) service annotation = Inl err \<longrightarrow>
        snd (resolveServiceHealthCheckPort controller namespace serviceName annotation targetType)
          = Inl (Wrap err ''failed to resolve healthcheck port for service'', ios_StrVal annotation))"
  by (auto simp: resolveServiceHealthCheckPort_def ios_String_def Let_def)

text \<open>The named port \<open>http\<close> with the container port 8080 and the node port 31080, the
  sentinel with the value \<open>traffic-port\<close>, and the numeric port 8080.\<close>

lemma Itoa_31080: "Itoa (sint (31080 :: 32 word)) = ''31080''"
  by (simp add: Itoa_def natToDecimal.simps digit_def)

lemma Itoa_8080: "Itoa (sint (8080 :: 32 word)) = ''8080''"
  by (simp add: Itoa_def natToDecimal.simps digit_def)

lemma Parse_http: "Parse ''http'' = FromString ''http''"
  by (simp add: Parse_def Atoi_def isDigit_def)

lemma Parse_8080: "Parse ''8080'' = FromInt 8080"
  by (simp add: Parse_def Atoi_def isDigit_def digitsValue_def)

theorem resolveServiceHealthCheckPort_cases_witness:
  "resolveServiceHealthCheckPort exampleTG ''default'' ''foo'' (Parse ''http'') ''instance''
     = ([Store_GetService ''default/foo''], Inr ''31080'')
   \<and> resolveServiceHealthCheckPort exampleTG ''default'' ''foo'' (Parse ''http'') ''ip''
     = ([Store_GetService ''default/foo''], Inr ''8080'')
   \<and> resolveServiceHealthCheckPort exampleTG ''default'' ''foo'' (Parse ''traffic-port'') ''instance''
     = ([], Inr ''traffic-port'')
   \<and> resolveServiceHealthCheckPort exampleTG ''default'' ''foo'' (Parse ''8080'') ''instance''
     = ([], Inr ''8080'')"
proof -
  have p: "Parse ''traffic-port'' = FromString ''traffic-port''"
    by (simp add: Parse_def Atoi_def isDigit_def)
  have l: "exampleLookupServicePort exampleService (FromString ''http'') = Inr (examplePorts ! 0)"
    by (simp add: exampleLookupServicePort_def exampleService_def examplePorts_def FromString_def)
  have a: "resolveServiceHealthCheckPort exampleTG ''default'' ''foo'' (FromString ''http'') ''instance''
     = ([Store_GetService ''default/foo''], Inr ''31080'')"
    using resolveServiceHealthCheckPort_cases
            [of "FromString ''http''" exampleTG "''default''" "''foo''" "''instance''"] l Itoa_31080
    by (simp add: FromString_def exampleTG_def exampleStore_def examplePackages_def
          examplePorts_def TargetTypeEnumInstance_def prod_eq_iff)
  have b: "resolveServiceHealthCheckPort exampleTG ''default'' ''foo'' (FromString ''http'') ''ip''
     = ([Store_GetService ''default/foo''], Inr ''8080'')"
    using resolveServiceHealthCheckPort_cases
            [of "FromString ''http''" exampleTG "''default''" "''foo''" "''ip''"] l Itoa_8080
    by (simp add: FromString_def FromInt_def ios_String_def exampleTG_def exampleStore_def
          examplePackages_def examplePorts_def TargetTypeEnumInstance_def prod_eq_iff)
  have c: "resolveServiceHealthCheckPort exampleTG ''default'' ''foo'' (FromString ''traffic-port'') ''instance''
     = ([], Inr ''traffic-port'')"
    using resolveServiceHealthCheckPort_cases
            [of "FromString ''traffic-port''" exampleTG "''default''" "''foo''" "''instance''"]
    by (simp add: FromString_def exampleTG_def examplePackages_def)
  have d: "resolveServiceHealthCheckPort exampleTG ''default'' ''foo'' (FromInt 8080) ''instance''
     = ([], Inr ''8080'')"
    using resolveServiceHealthCheckPort_cases
            [of "FromInt 8080" exampleTG "''default''" "''foo''" "''instance''"] Itoa_8080
    by (simp add: FromInt_def)
  from a b c d show ?thesis by (simp add: Parse_http Parse_8080 p)
qed

subsection \<open>The comparison of a live target group with the annotations\<close>

lemma TGInstanceNeedsModification_no_matcher:
  "tgi_Matcher instance = None \<Longrightarrow>
   TGInstanceNeedsModification instance serviceAnnos = Inl nilDereference"
  by (auto simp: TGInstanceNeedsModification_def isHTTPOrHTTPS_def Let_def split: option.splits)

lemma TGInstanceNeedsModification_eq:
  assumes "tgi_Matcher instance = Some matcher"
    and "hc_Protocol (HealthCheck serviceAnnos) = Some protocol"
  shows "TGInstanceNeedsModification instance serviceAnnos =
     Inr (tgi_HealthCheckPath instance \<noteq> hc_Path (HealthCheck serviceAnnos)
            \<and> (protocol = ''HTTP'' \<or> protocol = ''HTTPS'')
          \<or> tgi_HealthCheckPort instance \<noteq> hc_Port (HealthCheck serviceAnnos)
          \<or> tgi_HealthCheckProtocol instance \<noteq> hc_Protocol (HealthCheck serviceAnnos)
          \<or> tgi_HealthCheckIntervalSeconds instance \<noteq> hc_IntervalSeconds (HealthCheck serviceAnnos)
          \<or> HttpCode matcher \<noteq> tga_SuccessCodes (TargetGroup serviceAnnos)
            \<and> (protocol = ''HTTP'' \<or> protocol = ''HTTPS'')
          \<or> tgi_HealthyThresholdCount instance \<noteq> tga_HealthyThresholdCount (TargetGroup serviceAnnos)
          \<or> tgi_UnhealthyThresholdCount instance \<noteq> tga_UnhealthyThresholdCount (TargetGroup serviceAnnos))"
  using assms
  by (auto simp: TGInstanceNeedsModification_def isHTTPOrHTTPS_def DeepEqual_def Let_def)

lemma fst_newTGInstance_no_matcher:
  assumes "hc_Protocol (HealthCheck serviceAnnos) = Some protocol"
    and "protocol \<noteq> ''HTTP''" and "protocol \<noteq> ''HTTPS''"
  shows "\<exists>input. fst (newTGInstance controller name serviceAnnos healthCheckPort)
                   = [Cloud_CreateTargetGroupWithContext input]
                 \<and> ctg_Matcher input = None \<and> ctg_HealthCheckProtocol input = Some protocol"
  using assms
  by (simp add: newTGInstance_def isHTTPOrHTTPS_def Let_def io_proj split: sum.splits list.splits)

text \<open>
  Claim C10. \<open>TGInstanceNeedsModification\<close> reads \<^verbatim>\<open>instance.Matcher.HttpCode\<close> whatever the
  desired health check protocol is: on a live target group without a matcher it panics with
  a nil dereference, and so does \<open>reconcileTGInstance\<close>, before any call to the cloud. With a
  matcher (and a desired protocol) it returns its answer. The precondition is not established
  by the controller for a health check that is neither HTTP nor HTTPS: the request with which
  \<open>newTGInstance\<close> creates such a target group has no matcher.
\<close>

theorem TGInstanceNeedsModification_requires_matcher:
  "(tgi_Matcher instance = None \<longrightarrow>
      TGInstanceNeedsModification instance serviceAnnos = Inl nilDereference
      \<and> reconcileTGInstance controller instance serviceAnnos healthCheckPort = ([], Inl nilDereference))
   \<and> (tgi_Matcher instance \<noteq> None \<and> hc_Protocol (HealthCheck serviceAnnos) \<noteq> None \<longrightarrow>
        (\<exists>needsChange. TGInstanceNeedsModification instance serviceAnnos = Inr needsChange))
   \<and> (\<forall>protocol. hc_Protocol (HealthCheck serviceAnnos) = Some protocol
          \<and> protocol \<noteq> ''HTTP'' \<and> protocol \<noteq> ''HTTPS'' \<longrightarrow>
        (\<exists>input. fst (newTGInstance controller name serviceAnnos healthCheckPort)
                    = [Cloud_CreateTargetGroupWithContext input]
                  \<and> ctg_Matcher input = None))"
proof (intro conjI impI allI)
  assume "tgi_Matcher instance = None"
  then show "TGInstanceNeedsModification instance serviceAnnos = Inl nilDereference"
    by (rule TGInstanceNeedsModification_no_matcher)
next
  assume "tgi_Matcher instance = None"
  then show "reconcileTGInstance controller instance serviceAnnos healthCheckPort = ([], Inl nilDereference)"
    by (simp add: reconcileTGInstance_def TGInstanceNeedsModification_no_matcher failWith_def)
next
  assume "tgi_Matcher instance \<noteq> None \<and> hc_Protocol (HealthCheck serviceAnnos) \<noteq> None"
  then obtain matcher protocol where "tgi_Matcher instance = Some matcher"
    and "hc_Protocol (HealthCheck serviceAnnos) = Some protocol" by auto
  from TGInstanceNeedsModification_eq [OF this]
  show "\<exists>needsChange. TGInstanceNeedsModification instance serviceAnnos = Inr needsChange"
    by blast
next
  fix protocol
  assume "hc_Protocol (HealthCheck serviceAnnos) = Some protocol
          \<and> protocol \<noteq> ''HTTP'' \<and> protocol \<noteq> ''HTTPS''"
  then show "\<exists>input. fst (newTGInstance controller name serviceAnnos healthCheckPort)
                    = [Cloud_CreateTargetGroupWithContext input]
                  \<and> ctg_Matcher input = None"
    using fst_newTGInstance_no_matcher [of serviceAnnos protocol controller name healthCheckPort]
    by blast
qed

text \<open>A target group with a TCP health check, in agreement with the annotations in every
  field: without a matcher the comparison panics, with an empty matcher it finds nothing to
  modify.\<close>

theorem TGInstanceNeedsModification_requires_matcher_witness:
  "TGInstanceNeedsModification tcpTargetGroup tcpAnnotations = Inl nilDereference
   \<and> TGInstanceNeedsModification (tcpTargetGroup\<lparr>tgi_Matcher := Some \<lparr>HttpCode = None\<rparr>\<rparr>) tcpAnnotations
       = Inr False
   \<and> fst (newTGInstance exampleTG ''nlb-0123456789abcdef012'' tcpAnnotations ''traffic-port'') =
       [Cloud_CreateTargetGroupWithContext
          \<lparr>ctg_Name = Some ''nlb-0123456789abcdef012'',
           ctg_HealthCheckIntervalSeconds = Some 10,
           ctg_HealthCheckPort = Some ''traffic-port'',
           ctg_HealthCheckProtocol = Some ''TCP'',
           ctg_TargetType = Some ''instance'',
           ctg_Protocol = Some ''TCP'',
           ctg_HealthyThresholdCount = Some 3,
           ctg_UnhealthyThresholdCount = Some 3,
           ctg_Port = Some 1,
           ctg_HealthCheckPath = None,
           ctg_Matcher = None\<rparr>]"
proof -
  have a: "TGInstanceNeedsModification tcpTargetGroup tcpAnnotations = Inl nilDereference"
    using TGInstanceNeedsModification_requires_matcher
            [of tcpTargetGroup tcpAnnotations exampleTG "''traffic-port''" "''nlb-0123456789abcdef012''"]
    by (simp add: tcpTargetGroup_def)
  have b: "TGInstanceNeedsModification (tcpTargetGroup\<lparr>tgi_Matcher := Some \<lparr>HttpCode = None\<rparr>\<rparr>) tcpAnnotations
       = Inr False"
    by (simp add: TGInstanceNeedsModification_def isHTTPOrHTTPS_def DeepEqual_def Let_def
          tcpTargetGroup_def tcpAnnotations_def exampleAnnotations_def)
  have c: "fst (newTGInstance exampleTG ''nlb-0123456789abcdef012'' tcpAnnotations ''traffic-port'') =
       [Cloud_CreateTargetGroupWithContext
          \<lparr>ctg_Name = Some ''nlb-0123456789abcdef012'',
           ctg_HealthCheckIntervalSeconds = Some 10,
           ctg_HealthCheckPort = Some ''traffic-port'',
           ctg_HealthCheckProtocol = Some ''TCP'',
           ctg_TargetType = Some ''instance'',
           ctg_Protocol = Some ''TCP'',
           ctg_HealthyThresholdCount = Some 3,
           ctg_UnhealthyThresholdCount = Some 3,
           ctg_Port = Some 1,
           ctg_HealthCheckPath = None,
           ctg_Matcher = None\<rparr>]"
    by (simp add: newTGInstance_def isHTTPOrHTTPS_def Let_def io_proj targetGroupDefaultPort_def
          tcpAnnotations_def exampleAnnotations_def split: sum.splits list.splits)
  from a b c show ?thesis by simp
qed

subsection \<open>A second run on an unchanged state\<close>

text \<open>When the IP address type and the set of subnets of the live load balancer are the
  desired ones, \<open>reconcileLBInstance\<close> only reconciles the tags. When every field that
  \<open>TGInstanceNeedsModification\<close> compares agrees with the annotations, \<open>reconcileTGInstance\<close>
  makes no call; when the live health check port is not the string of the annotation, it
  sends a modification.\<close>

lemma reconcileLBInstance_in_step:
  assumes "lbi_IpAddressType instance = cfg_IpAddressType lbConfig"
    and "set (map StringValue (AsSubnets (lbi_AvailabilityZones instance))) = set (cfg_Subnets lbConfig)"
  shows "fst (reconcileLBInstance controller instance lbConfig) =
           [LBTags_ReconcileELB (StringValue (lbi_LoadBalancerArn instance)) (cfg_Tags lbConfig)]"
  using assms by (simp add: fst_reconcileLBInstance)

lemma reconcileTGInstance_in_step:
  assumes "tgi_Matcher instance = Some matcher"
    and "hc_Protocol (HealthCheck serviceAnnos) = Some protocol"
    and "tgi_HealthCheckPath instance = hc_Path (HealthCheck serviceAnnos)"
    and "tgi_HealthCheckPort instance = hc_Port (HealthCheck serviceAnnos)"
    and "tgi_HealthCheckProtocol instance = hc_Protocol (HealthCheck serviceAnnos)"
    and "tgi_HealthCheckIntervalSeconds instance = hc_IntervalSeconds (HealthCheck serviceAnnos)"
    and "HttpCode matcher = tga_SuccessCodes (TargetGroup serviceAnnos)"
    and "tgi_HealthyThresholdCount instance = tga_HealthyThresholdCount (TargetGroup serviceAnnos)"
    and "tgi_UnhealthyThresholdCount instance = tga_UnhealthyThresholdCount (TargetGroup serviceAnnos)"
  shows "reconcileTGInstance controller instance serviceAnnos healthCheckPort = ([], Inr instance)"
  using assms
  by (simp add: reconcileTGInstance_def TGInstanceNeedsModification_eq [OF assms(1,2)] pure_def)

lemma reconcileTGInstance_port_differs:
  assumes "tgi_Matcher instance = Some matcher"
    and "hc_Protocol (HealthCheck serviceAnnos) = Some protocol"
    and "tgi_HealthCheckPort instance \<noteq> hc_Port (HealthCheck serviceAnnos)"
  shows "fst (reconcileTGInstance controller instance serviceAnnos healthCheckPort) =
           [Cloud_ModifyTargetGroupWithContext
              (modifyTargetGroupInput instance serviceAnnos healthCheckPort
                 (protocol = ''HTTP'' \<or> protocol = ''HTTPS''))]"
  using assms
  by (simp add: reconcileTGInstance_def TGInstanceNeedsModification_eq [OF assms(1,2)]
        isHTTPOrHTTPS_def Let_def io_proj split: sum.splits list.splits)

text \<open>
  Claim C1, at an input where it fails. The annotation names the health check port \<open>http\<close>,
  which resolves to the node port \<open>31080\<close>. The live target group is in step with the
  desired configuration: every field has the value of the request that the controller sends,
  health check port \<open>31080\<close> included, and the cloud leaves it so. Yet
  \<open>TGInstanceNeedsModification\<close> compares the live port with the annotation \<open>http\<close>, not
  with the resolved port, and answers that a modification is needed: the run of \<open>Reconcile\<close>
  issues \<open>ModifyTargetGroupWithContext\<close>, a mutating call, and so does every later run.
\<close>

theorem tg_Reconcile_named_port_modifies_again:
  "tg_Reconcile (exampleTG\<lparr>tg_cloud := convergedCloud\<rparr>) exampleService exampleBackend =
     ([Store_GetServiceAnnotations ''default/foo'',
       Store_GetService ''default/foo'',
       Cloud_GetTargetGroupByName ''nlb-0123456789abcdef012'',
       Cloud_ModifyTargetGroupWithContext
         \<lparr>mtg_TargetGroupArn = Some ''arn:tg/A'',
          mtg_HealthCheckIntervalSeconds = Some 10,
          mtg_HealthCheckPort = Some ''31080'',
          mtg_HealthCheckProtocol = Some ''HTTP'',
          mtg_HealthyThresholdCount = Some 3,
          mtg_UnhealthyThresholdCount = Some 3,
          mtg_HealthCheckPath = Some ''/healthz'',
          mtg_Matcher = Some \<lparr>HttpCode = Some ''200''\<rparr>\<rparr>,
       TGTags_ReconcileELB ''arn:tg/A'' Map.empty,
       TGAttrs_Reconcile ''arn:tg/A'' [],
       Targets_Reconcile ''arn:tg/A'' ''instance'' exampleService exampleBackend],
      Inr \<lparr>tg_Arn = ''arn:tg/A'', tg_TargetType = ''instance'', tg_Targets = []\<rparr>)
   \<and> inStepWith liveTargetGroup
         \<lparr>mtg_TargetGroupArn = Some ''arn:tg/A'',
          mtg_HealthCheckIntervalSeconds = Some 10,
          mtg_HealthCheckPort = Some ''31080'',
          mtg_HealthCheckProtocol = Some ''HTTP'',
          mtg_HealthyThresholdCount = Some 3,
          mtg_UnhealthyThresholdCount = Some 3,
          mtg_HealthCheckPath = Some ''/healthz'',
          mtg_Matcher = Some \<lparr>HttpCode = Some ''200''\<rparr>\<rparr>
   \<and> mutating (Cloud_ModifyTargetGroupWithContext
         \<lparr>mtg_TargetGroupArn = Some ''arn:tg/A'',
          mtg_HealthCheckIntervalSeconds = Some 10,
          mtg_HealthCheckPort = Some ''31080'',
          mtg_HealthCheckProtocol = Some ''HTTP'',
          mtg_HealthyThresholdCount = Some 3,
          mtg_UnhealthyThresholdCount = Some 3,
          mtg_HealthCheckPath = Some ''/healthz'',
          mtg_Matcher = Some \<lparr>HttpCode = Some ''200''\<rparr>\<rparr>)
   \<and> TGInstanceNeedsModification liveTargetGroup exampleAnnotations = Inr True"
proof -
  define C where "C = exampleTG\<lparr>tg_cloud := convergedCloud\<rparr>"
  have l: "exampleLookupServicePort exampleService (FromString ''http'') = Inr (examplePorts ! 0)"
    by (simp add: exampleLookupServicePort_def exampleService_def examplePorts_def FromString_def)
  have port: "resolveServiceHealthCheckPort C ''default'' ''foo'' (Parse ''http'') ''instance''
               = ([Store_GetService ''default/foo''], Inr ''31080'')"
    using l Itoa_31080
    by (simp add: resolveServiceHealthCheckPort_def Parse_http FromString_def ios_String_def C_def
          exampleTG_def exampleStore_def examplePackages_def examplePorts_def
          TargetTypeEnumInstance_def Let_def)
  have needs: "TGInstanceNeedsModification liveTargetGroup exampleAnnotations = Inr True"
    by (simp add: TGInstanceNeedsModification_def isHTTPOrHTTPS_def DeepEqual_def Let_def
          liveTargetGroup_def exampleAnnotations_def)
  have modify: "reconcileTGInstance C liveTargetGroup exampleAnnotations ''31080''
                = ([Cloud_ModifyTargetGroupWithContext
                     \<lparr>mtg_TargetGroupArn = Some ''arn:tg/A'',
                      mtg_HealthCheckIntervalSeconds = Some 10,
                      mtg_HealthCheckPort = Some ''31080'',
                      mtg_HealthCheckProtocol = Some ''HTTP'',
                      mtg_HealthyThresholdCount = Some 3,
                      mtg_UnhealthyThresholdCount = Some 3,
                      mtg_HealthCheckPath = Some ''/healthz'',
                      mtg_Matcher = Some \<lparr>HttpCode = Some ''200''\<rparr>\<rparr>],
                   Inr liveTargetGroup)"
    apply (simp add: reconcileTGInstance_def needs)
    apply (simp add: isHTTPOrHTTPS_def modifyTargetGroupInput_def Let_def io_simps C_def exampleTG_def
        convergedCloud_def exampleCloud_def exampleAnnotations_def liveTargetGroup_def)
    done
  have annos: "store_GetServiceAnnotations (tg_store C) key = Inr exampleAnnotations" for key
    by (simp add: C_def exampleTG_def exampleStore_def)
  have key: "k8s_MetaNamespaceKey (tg_packages C) exampleService = ''default/foo''"
    by (simp add: C_def exampleTG_def examplePackages_def exampleService_def)
  have fields: "hc_Port (HealthCheck exampleAnnotations) = Some ''http''"
    "tga_TargetType (TargetGroup exampleAnnotations) = Some ''instance''"
    "tga_Attributes (TargetGroup exampleAnnotations) = []"
    "svc_Namespace exampleService = ''default''" "svc_Name exampleService = ''foo''"
    "tgi_TargetGroupArn liveTargetGroup = Some ''arn:tg/A''"
    by (simp_all add: exampleAnnotations_def exampleService_def liveTargetGroup_def)
  have name: "gen_NameTG (tg_nameTagGen C) namespace serviceName servicePort targetType protocol
                = ''nlb-0123456789abcdef012''" for namespace serviceName servicePort targetType protocol
    by (simp add: C_def exampleTG_def exampleGenerator_def)
  have found: "cloud_GetTargetGroupByName (tg_cloud C) tgName = Inr (Some liveTargetGroup)" for tgName
    by (simp add: C_def convergedCloud_def)
  have tags: "buildTags C exampleService exampleBackend exampleAnnotations = Map.empty"
    by (simp add: buildTags_def C_def exampleTG_def exampleGenerator_def exampleAnnotations_def)
  have others: "tg_tagsController_ReconcileELB C tgArn tgTags = None"
    "tg_attrsController_Reconcile C tgArn attrs = None"
    "targetsController_Reconcile C tgArn targetType service backend = Inr []"
    for tgArn tgTags attrs targetType service backend
    by (simp_all add: C_def exampleTG_def)
  have run: "tg_Reconcile C exampleService exampleBackend =
     ([Store_GetServiceAnnotations ''default/foo'',
       Store_GetService ''default/foo'',
       Cloud_GetTargetGroupByName ''nlb-0123456789abcdef012'',
       Cloud_ModifyTargetGroupWithContext
         \<lparr>mtg_TargetGroupArn = Some ''arn:tg/A'',
          mtg_HealthCheckIntervalSeconds = Some 10,
          mtg_HealthCheckPort = Some ''31080'',
          mtg_HealthCheckProtocol = Some ''HTTP'',
          mtg_HealthyThresholdCount = Some 3,
          mtg_UnhealthyThresholdCount = Some 3,
          mtg_HealthCheckPath = Some ''/healthz'',
          mtg_Matcher = Some \<lparr>HttpCode = Some ''200''\<rparr>\<rparr>,
       TGTags_ReconcileELB ''arn:tg/A'' Map.empty,
       TGAttrs_Reconcile ''arn:tg/A'' [],
       Targets_Reconcile ''arn:tg/A'' ''instance'' exampleService exampleBackend],
      Inr \<lparr>tg_Arn = ''arn:tg/A'', tg_TargetType = ''instance'', tg_Targets = []\<rparr>)"
    by (simp add: tg_Reconcile_def annos key fields name found tags others port modify
          findExistingTGInstance_def errorOnly_def StringValue_def Let_def io_simps)
  have step: "inStepWith liveTargetGroup
         \<lparr>mtg_TargetGroupArn = Some ''arn:tg/A'',
          mtg_HealthCheckIntervalSeconds = Some 10,
          mtg_HealthCheckPort = Some ''31080'',
          mtg_HealthCheckProtocol = Some ''HTTP'',
          mtg_HealthyThresholdCount = Some 3,
          mtg_UnhealthyThresholdCount = Some 3,
          mtg_HealthCheckPath = Some ''/healthz'',
          mtg_Matcher = Some \<lparr>HttpCode = Some ''200''\<rparr>\<rparr>"
    by (simp add: inStepWith_def liveTargetGroup_def)
  from run step needs show ?thesis by (simp add: C_def)
qed

end
